theory Spec2Isabelle
  imports Complex_Main "HOL-Library.AList"
begin

section \<open>Python values\<close>

text \<open>
  The values that \<^verbatim>\<open>json.loads\<close> and \<^verbatim>\<open>ast.literal_eval\<close> can hand to the parser, and
  that travel on through the verdict into the controller. A finite float is kept as
  mantissa and binary exponent (every double is \<open>m * 2^e\<close>), which is all that truthiness
  needs. A \<open>PDict\<close> lists each key once. Text is a \<open>string\<close>: one \<open>char\<close> per character, so
  the model speaks about text whose code points are below 256.
\<close>

datatype pyfloat = FloatNaN | FloatInf bool | FloatFinite int int

datatype pyval =
    PNone
  | PBool bool
  | PInt int
  | PFloat pyfloat
  | PComplex pyfloat pyfloat
  | PStr string
  | PBytes string
  | PEllipsis
  | PList "pyval list"
  | PTuple "pyval list"
  | PSet "pyval list"
  | PDict "(pyval \<times> pyval) list"

datatype exn =
    JSONDecodeError
  | AttributeError
  | TypeError
  | ValueError
  | SyntaxError
  | RecursionError
  | MemoryError
  | OtherException string

fun float_nonzero :: "pyfloat \<Rightarrow> bool" where
  "float_nonzero FloatNaN = True"
| "float_nonzero (FloatInf _) = True"
| "float_nonzero (FloatFinite m e) = (m \<noteq> 0)"

text \<open>Python's truth value testing, as \<^verbatim>\<open>if x:\<close>, \<^verbatim>\<open>not x\<close> and \<^verbatim>\<open>x or y\<close> apply it.\<close>

fun truthy :: "pyval \<Rightarrow> bool" where
  "truthy PNone = False"
| "truthy (PBool b) = b"
| "truthy (PInt i) = (i \<noteq> 0)"
| "truthy (PFloat f) = float_nonzero f"
| "truthy (PComplex re im) = (float_nonzero re \<or> float_nonzero im)"
| "truthy (PStr s) = (s \<noteq> [])"
| "truthy (PBytes s) = (s \<noteq> [])"
| "truthy PEllipsis = True"
| "truthy (PList xs) = (xs \<noteq> [])"
| "truthy (PTuple xs) = (xs \<noteq> [])"
| "truthy (PSet xs) = (xs \<noteq> [])"
| "truthy (PDict kvs) = (kvs \<noteq> [])"

text \<open>\<^verbatim>\<open>a or b\<close>: the first operand when it is truthy, the second otherwise.\<close>

definition py_or :: "pyval \<Rightarrow> pyval \<Rightarrow> pyval" where
  "py_or a b = (if truthy a then a else b)"

text \<open>
  \<^verbatim>\<open>data.get(key)\<close> on a decoded value: a dict answers with the value or \<^verbatim>\<open>None\<close>; any
  other value has no \<^verbatim>\<open>get\<close> attribute. A \<^verbatim>\<open>str\<close> key is equal to \<^verbatim>\<open>str\<close> keys only.
\<close>

definition dict_entry :: "(pyval \<times> pyval) list \<Rightarrow> string \<Rightarrow> pyval" where
  "dict_entry kvs k = (case map_of kvs (PStr k) of None \<Rightarrow> PNone | Some v \<Rightarrow> v)"

fun py_get :: "pyval \<Rightarrow> string \<Rightarrow> exn + pyval" where
  "py_get (PDict kvs) k = Inr (dict_entry kvs k)"
| "py_get _ k = Inl AttributeError"

text \<open>
  The dicts the program builds itself (the verdict, with its four fixed keys, and the
  empty dict) are association lists from key to value.
\<close>

type_synonym pydict = "(string \<times> pyval) list"

definition dict_get :: "pydict \<Rightarrow> string \<Rightarrow> pyval" where
  "dict_get d k = (case map_of d k of None \<Rightarrow> PNone | Some v \<Rightarrow> v)"

definition dict_get_default :: "pydict \<Rightarrow> string \<Rightarrow> pyval \<Rightarrow> pyval" where
  "dict_get_default d k dflt = (case map_of d k of None \<Rightarrow> dflt | Some v \<Rightarrow> v)"

definition dict_set :: "pydict \<Rightarrow> string \<Rightarrow> pyval \<Rightarrow> pydict" where
  "dict_set d k v = AList.update k v d"

section \<open>The regular expressions of the output parser\<close>

text \<open>
  The three patterns of \<^verbatim>\<open>_parse_submission_result\<close> use literals, character classes,
  sequence, alternation, a greedy optional group, greedy and lazy repetition of a single
  character class, and one capturing group. The matcher below is the backtracking search
  of Python's \<^verbatim>\<open>re\<close> for exactly these constructs: it lists every way the pattern can
  match at the start of the text, in the order in which backtracking would try them, so
  that the head of the list is the match \<^verbatim>\<open>re\<close> reports.
\<close>

datatype cls = Space | Digit | AnyChar | NoneOf string | OneOf string

definition py_whitespace :: "char list" where
  "py_whitespace = [CHR 0x09, CHR 0x0A, CHR 0x0B, CHR 0x0C, CHR 0x0D, CHR 0x1C, CHR 0x1D,
     CHR 0x1E, CHR 0x1F, CHR 0x20, CHR 0x85, CHR 0xA0]"

fun in_cls :: "cls \<Rightarrow> char \<Rightarrow> bool" where
  "in_cls Space c = (c \<in> set py_whitespace)"
| "in_cls Digit c = (c \<in> set ''0123456789'')"
| "in_cls AnyChar c = True"
| "in_cls (NoneOf cs) c = (c \<notin> set cs)"
| "in_cls (OneOf cs) c = (c \<in> set cs)"

datatype rx =
    Lit string
  | One cls
  | Seq rx rx
  | Alt rx rx
  | Opt rx
  | Star cls
  | Plus cls
  | LazyStar cls
  | Group rx

definition lower :: "char \<Rightarrow> char" where
  "lower c = (case map_of (zip ''ABCDEFGHIJKLMNOPQRSTUVWXYZ'' ''abcdefghijklmnopqrstuvwxyz'') c of
     None \<Rightarrow> c | Some l \<Rightarrow> l)"

text \<open>
  Literal text at the start of the input, compared as it is or, under
  \<^verbatim>\<open>re.IGNORECASE\<close>, up to letter case; the result is the input after the literal.
\<close>

fun lit_rest :: "bool \<Rightarrow> string \<Rightarrow> string \<Rightarrow> string option" where
  "lit_rest ci [] s = Some s"
| "lit_rest ci (c # l) [] = None"
| "lit_rest ci (c # l) (x # s) =
     (if (if ci then lower c = lower x else c = x) then lit_rest ci l s else None)"

text \<open>A matcher state: the text of group 1 (when it has matched) and the text still ahead.\<close>

type_synonym mstate = "string option \<times> string"

definition run_len :: "cls \<Rightarrow> string \<Rightarrow> nat" where
  "run_len c s = length (takeWhile (in_cls c) s)"

fun rx_run :: "bool \<Rightarrow> rx \<Rightarrow> mstate \<Rightarrow> mstate list" where
  "rx_run ci (Lit l) (g, s) = (case lit_rest ci l s of None \<Rightarrow> [] | Some r \<Rightarrow> [(g, r)])"
| "rx_run ci (One c) (g, s) =
     (case s of [] \<Rightarrow> [] | x # t \<Rightarrow> if in_cls c x then [(g, t)] else [])"
| "rx_run ci (Seq a b) st = concat (map (rx_run ci b) (rx_run ci a st))"
| "rx_run ci (Alt a b) st = rx_run ci a st @ rx_run ci b st"
| "rx_run ci (Opt a) st = rx_run ci a st @ [st]"
| "rx_run ci (Star c) (g, s) = map (\<lambda>k. (g, drop k s)) (rev [0..<Suc (run_len c s)])"
| "rx_run ci (Plus c) (g, s) = map (\<lambda>k. (g, drop k s)) (rev [1..<Suc (run_len c s)])"
| "rx_run ci (LazyStar c) (g, s) = map (\<lambda>k. (g, drop k s)) [0..<Suc (run_len c s)]"
| "rx_run ci (Group a) (g, s) =
     map (\<lambda>(g', r). (Some (take (length s - length r) s), r)) (rx_run ci a (g, s))"

text \<open>\<^verbatim>\<open>re.search\<close>: the first match at the leftmost position that has one.\<close>

fun rx_search :: "bool \<Rightarrow> rx \<Rightarrow> string \<Rightarrow> mstate option" where
  "rx_search ci r [] = (case rx_run ci r (None, []) of [] \<Rightarrow> None | st # _ \<Rightarrow> Some st)"
| "rx_search ci r (c # t) =
     (case rx_run ci r (None, c # t) of [] \<Rightarrow> rx_search ci r t | st # _ \<Rightarrow> Some st)"

text \<open>
  \<^verbatim>\<open>re.findall\<close> for a pattern without groups: the matched texts, left to right, each
  search resuming where the previous match ended (one character further after an empty
  match).
\<close>

function rx_findall :: "bool \<Rightarrow> rx \<Rightarrow> string \<Rightarrow> string list" where
  "rx_findall ci r s =
     (case rx_run ci r (None, s) of
        [] \<Rightarrow> (case s of [] \<Rightarrow> [] | _ # t \<Rightarrow> rx_findall ci r t)
      | (g, rest) # _ \<Rightarrow>
          (if length rest < length s
           then take (length s - length rest) s # rx_findall ci r rest
           else [] # (case s of [] \<Rightarrow> [] | _ # t \<Rightarrow> rx_findall ci r t)))"
  by pat_completeness auto
termination
  by (relation "measure (\<lambda>(ci, r, s). length s)") auto

declare rx_findall.simps [simp del]

text \<open>
  \<^verbatim>\<open>(?:Status|STATUS|REQUEST_STATUS)(?:\s+Code)?:\s*(\d+)\<close>, used with \<^verbatim>\<open>re.IGNORECASE\<close>.
\<close>

definition status_re :: rx where
  "status_re =
     Seq (Alt (Lit ''Status'') (Alt (Lit ''STATUS'') (Lit ''REQUEST_STATUS'')))
    (Seq (Opt (Seq (Plus Space) (Lit ''Code'')))
    (Seq (Lit '':'')
    (Seq (Star Space)
         (Group (Plus Digit)))))"

text \<open>
  \<^verbatim>\<open>(?:Response|RESPONSE|SERVER_RESPONSE)(?:\s+Body)?:\s*(\{.*?\})\<close>, used with
  \<^verbatim>\<open>re.DOTALL | re.IGNORECASE\<close> (so the dot is \<open>AnyChar\<close>).
\<close>

definition response_re :: rx where
  "response_re =
     Seq (Alt (Lit ''Response'') (Alt (Lit ''RESPONSE'') (Lit ''SERVER_RESPONSE'')))
    (Seq (Opt (Seq (Plus Space) (Lit ''Body'')))
    (Seq (Lit '':'')
    (Seq (Star Space)
         (Group (Seq (Lit ''{'') (Seq (LazyStar AnyChar) (Lit ''}'')))))))"

text \<open>\<^verbatim>\<open>\{[^{}]*[\"\']correct[\"\'][^{}]*\}\<close>, used without flags.\<close>

definition fallback_re :: rx where
  "fallback_re =
     Seq (Lit ''{'')
    (Seq (Star (NoneOf ''{}''))
    (Seq (One (OneOf [CHR 0x22, CHR 0x27]))
    (Seq (Lit ''correct'')
    (Seq (One (OneOf [CHR 0x22, CHR 0x27]))
    (Seq (Star (NoneOf ''{}''))
         (Lit ''}''))))))"

section \<open>The output parser\<close>

text \<open>
  \<^verbatim>\<open>json.loads\<close>, \<^verbatim>\<open>ast.literal_eval\<close> and \<^verbatim>\<open>int\<close> belong to the Python runtime, not to
  this program, so the parser takes them as it finds them: each either returns a value
  or raises (an \<open>exn\<close> stands for a Python \<^verbatim>\<open>Exception\<close>; left to themselves the three raise
  nothing outside that class). The same holds for the formatting of a value inside an
  f-string, which the parser's log lines do: \<open>py_format\<close> is \<open>None\<close> when the value formats
  and the exception otherwise (a Python that limits the length of integer strings raises
  \<^verbatim>\<open>ValueError\<close> for a longer \<^verbatim>\<open>int\<close>). Everything proved for an arbitrary \<open>runtime\<close> holds
  whatever these four do.
\<close>

record runtime =
  json_loads :: "string \<Rightarrow> exn + pyval"
  literal_eval :: "string \<Rightarrow> exn + pyval"
  py_int :: "string \<Rightarrow> exn + int"
  py_format :: "pyval \<Rightarrow> exn option"

text \<open>A log line that interpolates the given values: the first exception of a formatting.\<close>

fun log_values :: "runtime \<Rightarrow> pyval list \<Rightarrow> exn option" where
  "log_values rt [] = None"
| "log_values rt (v # vs) =
     (case py_format rt v of Some e \<Rightarrow> Some e | None \<Rightarrow> log_values rt vs)"

definition empty_verdict :: pydict where
  "empty_verdict =
     [(''correct'', PNone), (''next_url'', PNone), (''reason'', PNone), (''status_code'', PNone)]"

text \<open>
  The three assignments both extraction steps make from a decoded object:
  \<^verbatim>\<open>submission['correct'] = data.get('correct')\<close>,
  \<^verbatim>\<open>submission['next_url'] = data.get('url') or data.get('next_url')\<close>,
  \<^verbatim>\<open>submission['reason'] = data.get('reason')\<close>.
  A value that is no dict raises at the first \<^verbatim>\<open>get\<close>, before anything is assigned.
\<close>

definition take_fields :: "pyval \<Rightarrow> pydict \<Rightarrow> exn + pydict" where
  "take_fields data sub =
     (case py_get data ''correct'' of Inl e \<Rightarrow> Inl e | Inr c \<Rightarrow>
     (case py_get data ''url'' of Inl e \<Rightarrow> Inl e | Inr u \<Rightarrow>
     (case py_get data ''next_url'' of Inl e \<Rightarrow> Inl e | Inr n \<Rightarrow>
     (case py_get data ''reason'' of Inl e \<Rightarrow> Inl e | Inr r \<Rightarrow>
        Inr (dict_set (dict_set (dict_set sub ''correct'' c) ''next_url'' (py_or u n))
               ''reason'' r)))))"

text \<open>
  A step of the parser ends with the verdict as it then stands and with the exception
  that ended it, if one did. Step 1: the status code, and the log line that prints it.
\<close>

definition parse_status :: "runtime \<Rightarrow> string \<Rightarrow> pydict \<Rightarrow> pydict \<times> exn option" where
  "parse_status rt output sub =
     (case rx_search True status_re output of
        None \<Rightarrow> (sub, None)
      | Some (g, _) \<Rightarrow>
          (case g of
             None \<Rightarrow> (sub, Some TypeError)
           | Some digits \<Rightarrow>
               (case py_int rt digits of
                  Inl e \<Rightarrow> (sub, Some e)
                | Inr n \<Rightarrow> (dict_set sub ''status_code'' (PInt n), log_values rt [PInt n]))))"

text \<open>
  Step 2, the decoding: \<^verbatim>\<open>json.loads\<close> first; only its \<^verbatim>\<open>JSONDecodeError\<close> leads to
  \<^verbatim>\<open>ast.literal_eval\<close>, whose every exception leaves \<^verbatim>\<open>response_data\<close> at \<^verbatim>\<open>None\<close>. Any
  other exception of \<^verbatim>\<open>json.loads\<close> leaves the step.
\<close>

definition decode_response :: "runtime \<Rightarrow> string \<Rightarrow> exn + pyval" where
  "decode_response rt dict_str =
     (case json_loads rt dict_str of
        Inr v \<Rightarrow> Inr v
      | Inl e \<Rightarrow>
          (if e = JSONDecodeError
           then (case literal_eval rt dict_str of Inr v \<Rightarrow> Inr v | Inl _ \<Rightarrow> Inr PNone)
           else Inl e))"

text \<open>
  Step 2: after the three assignments comes the log line
  \<^verbatim>\<open>f"... correct={submission['correct']}, next={submission['next_url']}"\<close>.
\<close>

definition parse_response :: "runtime \<Rightarrow> string \<Rightarrow> pydict \<Rightarrow> pydict \<times> exn option" where
  "parse_response rt output sub =
     (case rx_search True response_re output of
        None \<Rightarrow> (sub, None)
      | Some (g, _) \<Rightarrow>
          (case g of
             None \<Rightarrow> (sub, Some TypeError)
           | Some dict_str \<Rightarrow>
               (case decode_response rt dict_str of
                  Inl e \<Rightarrow> (sub, Some e)
                | Inr response_data \<Rightarrow>
                    (if truthy response_data then
                       (case take_fields response_data sub of
                          Inl e \<Rightarrow> (sub, Some e)
                        | Inr sub' \<Rightarrow>
                            (sub', log_values rt [dict_get sub' ''correct'',
                                                  dict_get sub' ''next_url'']))
                     else (sub, None)))))"

text \<open>
  Step 3, the scavenger: the candidates in order of appearance; a candidate on which
  both decoders raise (anything: the handlers are bare \<^verbatim>\<open>except:\<close>) is passed over
  (\<^verbatim>\<open>continue\<close>), the first decoded one is used and ends the loop (\<^verbatim>\<open>break\<close>). The
  assignments are outside the inner handlers: a decoded value that is no dict raises
  out of the loop.
\<close>

fun scavenge_loop :: "runtime \<Rightarrow> string list \<Rightarrow> pydict \<Rightarrow> pydict \<times> exn option" where
  "scavenge_loop rt [] sub = (sub, None)"
| "scavenge_loop rt (m # ms) sub =
     (case json_loads rt m of
        Inr data \<Rightarrow>
          (case take_fields data sub of Inl e \<Rightarrow> (sub, Some e) | Inr sub' \<Rightarrow> (sub', None))
      | Inl _ \<Rightarrow>
          (case literal_eval rt m of
             Inr data \<Rightarrow>
               (case take_fields data sub of Inl e \<Rightarrow> (sub, Some e) | Inr sub' \<Rightarrow> (sub', None))
           | Inl _ \<Rightarrow> scavenge_loop rt ms sub))"

definition scavenge :: "runtime \<Rightarrow> string \<Rightarrow> pydict \<Rightarrow> pydict \<times> exn option" where
  "scavenge rt output sub =
     (if dict_get sub ''correct'' = PNone
      then scavenge_loop rt (rx_findall False fallback_re output) sub
      else (sub, None))"

text \<open>
  \<^verbatim>\<open>_parse_submission_result\<close>: the three steps inside one \<^verbatim>\<open>try\<close>, whose handler logs
  and falls through to \<^verbatim>\<open>return submission\<close>: an exception in a step ends the parse with
  the verdict as that step left it.
\<close>

definition parse_submission_result :: "runtime \<Rightarrow> string \<Rightarrow> pydict" where
  "parse_submission_result rt output =
     (case parse_status rt output empty_verdict of
        (s1, Some _) \<Rightarrow> s1
      | (s1, None) \<Rightarrow>
          (case parse_response rt output s1 of
             (s2, Some _) \<Rightarrow> s2
           | (s2, None) \<Rightarrow> fst (scavenge rt output s2)))"

section \<open>A runtime for concrete outputs\<close>

text \<open>
  To run the parser on a concrete output the decoders must be concrete too. The two
  below decode one fragment of what the real ones accept: a flat object, that is
  \<^verbatim>\<open>{}\<close> or \<^verbatim>\<open>{key: value, ...}\<close> with string keys and with values that are strings,
  decimal integers or the three constants (\<^verbatim>\<open>true false null\<close> for JSON,
  \<^verbatim>\<open>True False None\<close> for Python); strings hold no backslash and no control character;
  JSON strings are double-quoted, Python strings single- or double-quoted; Python allows
  a comma before the closing brace, and reads \<^verbatim>\<open>{value, ...}\<close> as a set. Any other text is
  reported as an error, which is what the real decoders do with text that is no JSON or
  no Python literal, and is the edge of the fragment otherwise. They serve the closed
  examples only.
\<close>

datatype token = LBrace | RBrace | Colon | Comma | TStr string | TInt int | TWord string

definition digit_val :: "char \<Rightarrow> int" where
  "digit_val c = (case map_of (zip ''0123456789'' [0, 1, 2, 3, 4, 5, 6, 7, 8, 9]) c of
     None \<Rightarrow> 0 | Some d \<Rightarrow> d)"

definition int_of_digits :: "string \<Rightarrow> int" where
  "int_of_digits ds = foldl (\<lambda>n c. 10 * n + digit_val c) 0 ds"

definition is_letter :: "char \<Rightarrow> bool" where
  "is_letter c = (c \<in> set ''abcdefghijklmnopqrstuvwxyzABCDEFGHIJKLMNOPQRSTUVWXYZ'')"

definition plain_text :: "string \<Rightarrow> bool" where
  "plain_text s = list_all (\<lambda>c. c \<noteq> CHR 0x5C \<and> (32::nat) \<le> of_char c) s"

function tokenize :: "string \<Rightarrow> string \<Rightarrow> token list option" where
  "tokenize quotes [] = Some []"
| "tokenize quotes (c # cs) =
     (if c \<in> set [CHR 0x20, CHR 0x09, CHR 0x0A, CHR 0x0D] then tokenize quotes cs
      else if c = CHR ''{'' then map_option ((#) LBrace) (tokenize quotes cs)
      else if c = CHR ''}'' then map_option ((#) RBrace) (tokenize quotes cs)
      else if c = CHR '':'' then map_option ((#) Colon) (tokenize quotes cs)
      else if c = CHR '','' then map_option ((#) Comma) (tokenize quotes cs)
      else if c \<in> set quotes then
        (let body = takeWhile (\<lambda>x. x \<noteq> c) cs in
         case dropWhile (\<lambda>x. x \<noteq> c) cs of
           [] \<Rightarrow> None
         | _ # rest \<Rightarrow>
             (if plain_text body then map_option ((#) (TStr body)) (tokenize quotes rest)
              else None))
      else if in_cls Digit c then
        (let ds = takeWhile (in_cls Digit) (c # cs) in
         if c = CHR ''0'' \<and> length ds > 1 then None
         else map_option ((#) (TInt (int_of_digits ds)))
                (tokenize quotes (dropWhile (in_cls Digit) cs)))
      else if c = CHR ''-'' then
        (let ds = takeWhile (in_cls Digit) cs in
         if ds = [] \<or> (hd ds = CHR ''0'' \<and> length ds > 1) then None
         else map_option ((#) (TInt (- int_of_digits ds)))
                (tokenize quotes (dropWhile (in_cls Digit) cs)))
      else if is_letter c then
        map_option ((#) (TWord (takeWhile is_letter (c # cs))))
          (tokenize quotes (dropWhile is_letter cs))
      else None)"
  by pat_completeness auto
termination
proof (relation "measure (\<lambda>(q, s). length s)")
  fix c :: char and cs rest :: string and x :: char
  assume "dropWhile (\<lambda>y. y \<noteq> c) cs = x # rest"
  then have "length (x # rest) \<le> length cs"
    by (metis length_dropWhile_le)
  then show "((quotes, rest), (quotes, c # cs)) \<in> measure (\<lambda>(q, s). length s)" for quotes :: string
    by simp
qed (auto simp: less_Suc_eq_le length_dropWhile_le)

fun tok_value :: "bool \<Rightarrow> token \<Rightarrow> pyval option" where
  "tok_value js (TStr s) = Some (PStr s)"
| "tok_value js (TInt i) = Some (PInt i)"
| "tok_value js (TWord w) =
     (if js then
        (if w = ''true'' then Some (PBool True) else if w = ''false'' then Some (PBool False)
         else if w = ''null'' then Some PNone else None)
      else
        (if w = ''True'' then Some (PBool True) else if w = ''False'' then Some (PBool False)
         else if w = ''None'' then Some PNone else None))"
| "tok_value js _ = None"

text \<open>The members of the object, after the opening brace; a repeated key keeps its last value.\<close>

fun members :: "bool \<Rightarrow> token list \<Rightarrow> (pyval \<times> pyval) list \<Rightarrow> (pyval \<times> pyval) list option" where
  "members js ts acc =
     (case ts of
        TStr k # Colon # v # rest \<Rightarrow>
          (case tok_value js v of
             None \<Rightarrow> None
           | Some x \<Rightarrow>
               (case rest of
                  [RBrace] \<Rightarrow> Some (AList.update (PStr k) x acc)
                | Comma # rest' \<Rightarrow>
                    (if rest' = [RBrace] then (if js then None else Some (AList.update (PStr k) x acc))
                     else members js rest' (AList.update (PStr k) x acc))
                | _ \<Rightarrow> None))
      | _ \<Rightarrow> None)"

text \<open>The elements of a Python set display, after the opening brace.\<close>

fun elements :: "token list \<Rightarrow> pyval list \<Rightarrow> pyval list option" where
  "elements ts acc =
     (case ts of
        v # rest \<Rightarrow>
          (case tok_value False v of
             None \<Rightarrow> None
           | Some x \<Rightarrow>
               (case rest of
                  [RBrace] \<Rightarrow> Some (List.insert x acc)
                | Comma # rest' \<Rightarrow>
                    (if rest' = [RBrace] then Some (List.insert x acc)
                     else elements rest' (List.insert x acc))
                | _ \<Rightarrow> None))
      | _ \<Rightarrow> None)"

definition flat_object :: "bool \<Rightarrow> string \<Rightarrow> pyval option" where
  "flat_object js s =
     (case tokenize (if js then [CHR 0x22] else [CHR 0x22, CHR 0x27]) s of
        None \<Rightarrow> None
      | Some ts \<Rightarrow>
          (case ts of
             LBrace # ts' \<Rightarrow>
               (if ts' = [RBrace] then Some (PDict [])
                else (case members js ts' [] of
                        Some kvs \<Rightarrow> Some (PDict kvs)
                      | None \<Rightarrow> (if js then None else map_option PSet (elements ts' []))))
           | _ \<Rightarrow> None))"

definition json_loads_flat :: "string \<Rightarrow> exn + pyval" where
  "json_loads_flat s = (case flat_object True s of None \<Rightarrow> Inl JSONDecodeError | Some v \<Rightarrow> Inr v)"

definition literal_eval_flat :: "string \<Rightarrow> exn + pyval" where
  "literal_eval_flat s = (case flat_object False s of None \<Rightarrow> Inl ValueError | Some v \<Rightarrow> Inr v)"

text \<open>
  \<^verbatim>\<open>int\<close> on a run of decimal digits, as the status pattern captures it. (A Python that
  limits the length of integer strings raises \<^verbatim>\<open>ValueError\<close> beyond the limit; the examples
  stay far below it.)
\<close>

definition int_decimal :: "string \<Rightarrow> exn + int" where
  "int_decimal ds =
     (if ds \<noteq> [] \<and> list_all (in_cls Digit) ds then Inr (int_of_digits ds) else Inl ValueError)"

definition flat_runtime :: runtime where
  "flat_runtime =
     \<lparr>json_loads = json_loads_flat, literal_eval = literal_eval_flat, py_int = int_decimal,
      py_format = (\<lambda>v. None)\<rparr>"



section \<open>Settings, the outside world and its trace\<close>

record settings =
  STUDENT_EMAIL :: string
  STUDENT_SECRET :: string
  QUIZ_TIMEOUT_SECONDS :: int
  SKIP_THRESHOLD_SECONDS :: int

record question_data =
  question_text :: string
  raw_html :: string
  url :: pyval

text \<open>
  What \<^verbatim>\<open>_build_prompt\<close> and \<^verbatim>\<open>analyze_error_and_retry\<close> interpolate into the prompt, in
  place of the prompt text: question text, quiz URL and the two credentials from the
  settings, and, when \<^verbatim>\<open>previous_error\<close> is truthy, the feedback section (error, failed
  code, previous output); for the fix prompt the code, the error and the question text.
\<close>

datatype llm_prompt =
    SolvePrompt string pyval string string "(pyval \<times> string option \<times> string option) option"
  | FixPrompt string "string option" string

record fallback_payload =
  fp_email :: string
  fp_secret :: string
  fp_url :: pyval
  fp_answer :: string

text \<open>
  Everything the program sends out: the page it visits, an LLM call (with the credentials
  of the system instruction and the prompt), an execution (the code with the injected
  \<^verbatim>\<open>STUDENT_EMAIL\<close>, \<^verbatim>\<open>STUDENT_SECRET\<close> and \<^verbatim>\<open>QUIZ_URL\<close>), the fallback POST.
\<close>

datatype event =
    Visit pyval
  | LLMCall string string llm_prompt
  | Exec string string string pyval
  | Post pyval fallback_payload

text \<open>
  The world answers the program's calls, the n-th call of each kind by the n-th entry:
  \<^item> \<open>clock\<close>: the readings of \<^verbatim>\<open>datetime.now()\<close>, in seconds. Python subtracts and compares
    them as floats; at the microsecond resolution of \<^verbatim>\<open>datetime\<close> these comparisons agree
    with the exact ones, which is what the reals here give;
  \<^item> \<open>pages\<close>: question text and HTML of the visited page, or \<open>None\<close> when the browser raises;
  \<^item> \<open>llm\<close>: the cleaned code of the reply, or \<open>None\<close> when the API call raises;
  \<^item> \<open>runs\<close>: for \<^verbatim>\<open>exec\<close>, how it ended and the text it printed. It returned, or it
    raised an \<^verbatim>\<open>Exception\<close> (with the text \<^verbatim>\<open>Type: message\<close> the executor builds), or it
    raised outside \<^verbatim>\<open>Exception\<close>, as \<^verbatim>\<open>sys.exit()\<close> does with \<^verbatim>\<open>SystemExit\<close> (with the name
    of the exception). The executed code is taken to leave the interpreter's own state
    alone;
  \<^item> \<open>posts\<close>: \<open>None\<close> when \<^verbatim>\<open>requests.post\<close> raises, else what \<^verbatim>\<open>response.json()\<close> does.
  \<open>events\<close> records what went out, in order. The log lines of the executor and of the
  controller are left out: formatting a URL or a reason into them is taken to succeed.
\<close>

datatype exec_end = Returned | Raised string | Escaped string

record world =
  clock :: "nat \<Rightarrow> real"
  pages :: "nat \<Rightarrow> (string \<times> string) option"
  llm :: "nat \<Rightarrow> string option"
  runs :: "nat \<Rightarrow> exec_end \<times> string"
  posts :: "nat \<Rightarrow> (exn + pyval) option"
  n_clock :: nat
  n_pages :: nat
  n_llm :: nat
  n_runs :: nat
  n_posts :: nat
  events :: "event list"

definition now :: "world \<Rightarrow> real \<times> world" where
  "now w = (clock w (n_clock w), w\<lparr>n_clock := Suc (n_clock w)\<rparr>)"

text \<open>
  \<^verbatim>\<open>elapsed = (datetime.now() - start_time).total_seconds()\<close>,
  \<^verbatim>\<open>remaining = settings.QUIZ_TIMEOUT_SECONDS - elapsed\<close>.
\<close>

definition remaining_time :: "settings \<Rightarrow> real \<Rightarrow> world \<Rightarrow> real \<times> world" where
  "remaining_time st start_time w =
     (let (t, w1) = now w;
          elapsed = t - start_time
      in (real_of_int (QUIZ_TIMEOUT_SECONDS st) - elapsed, w1))"

section \<open>Browser and solution generator\<close>

definition visit_quiz_page :: "pyval \<Rightarrow> world \<Rightarrow> question_data option \<times> world" where
  "visit_quiz_page quiz_url w =
     (let w1 = w\<lparr>n_pages := Suc (n_pages w), events := events w @ [Visit quiz_url]\<rparr>
      in (case pages w (n_pages w) of
            None \<Rightarrow> (None, w1)
          | Some (text, html) \<Rightarrow>
              (Some \<lparr>question_text = text, raw_html = html, url = quiz_url\<rparr>, w1)))"

definition build_prompt ::
  "settings \<Rightarrow> question_data \<Rightarrow> pyval \<Rightarrow> string option \<Rightarrow> string option \<Rightarrow> llm_prompt" where
  "build_prompt st qd previous_error failed_code previous_output =
     SolvePrompt (question_text qd) (url qd) (STUDENT_EMAIL st) (STUDENT_SECRET st)
       (if truthy previous_error then Some (previous_error, failed_code, previous_output)
        else None)"

text \<open>\<^verbatim>\<open>generate_solution\<close> catches every exception of the API call and returns \<^verbatim>\<open>None\<close>.\<close>

definition generate_solution ::
  "settings \<Rightarrow> question_data \<Rightarrow> pyval \<Rightarrow> string option \<Rightarrow> string option \<Rightarrow> world
     \<Rightarrow> string option \<times> world" where
  "generate_solution st qd previous_error failed_code previous_output w =
     (let prompt = build_prompt st qd previous_error failed_code previous_output
      in (llm w (n_llm w),
          w\<lparr>n_llm := Suc (n_llm w),
            events := events w @ [LLMCall (STUDENT_EMAIL st) (STUDENT_SECRET st) prompt]\<rparr>))"

text \<open>\<^verbatim>\<open>analyze_error_and_retry\<close> logs the exception of the API call and raises it again.\<close>

definition analyze_error_and_retry ::
  "settings \<Rightarrow> question_data \<Rightarrow> string \<Rightarrow> string option \<Rightarrow> world \<Rightarrow> (exn + string) \<times> world" where
  "analyze_error_and_retry st qd code err w =
     ((case llm w (n_llm w) of None \<Rightarrow> Inl (OtherException ''API'') | Some fixed \<Rightarrow> Inr fixed),
      w\<lparr>n_llm := Suc (n_llm w),
        events := events w @
          [LLMCall (STUDENT_EMAIL st) (STUDENT_SECRET st) (FixPrompt code err (question_text qd))]\<rparr>)"

section \<open>The execution sandbox adapter\<close>

record execution_result =
  success :: bool
  output_text :: "string option"
  error :: "string option"
  submission_result :: "pydict option"

text \<open>
  \<^verbatim>\<open>execute_code\<close>. The result starts as \<^verbatim>\<open>{'success': False, 'output': None,
  'error': None, 'submission_result': None}\<close>; \<^verbatim>\<open>exec\<close> runs with the credentials of the
  settings and the quiz URL injected; \<^verbatim>\<open>except Exception\<close> records the error; the
  \<^verbatim>\<open>finally\<close> block stores the captured text and the submission. An exception outside
  \<^verbatim>\<open>Exception\<close> is not caught: after the \<^verbatim>\<open>finally\<close> block it leaves \<^verbatim>\<open>execute_code\<close>,
  which then returns nothing (\<open>Inl\<close> with the name of the exception). \<^verbatim>\<open>exec(None, ...)\<close>
  raises a \<^verbatim>\<open>TypeError\<close> before anything runs. (The \<^verbatim>\<open>traceback\<close> entry is only logged
  and is left out.)
\<close>

definition execute_code ::
  "runtime \<Rightarrow> settings \<Rightarrow> string option \<Rightarrow> pyval \<Rightarrow> world
     \<Rightarrow> (string + execution_result) \<times> world" where
  "execute_code rt st code quiz_url w =
     (let result0 = \<lparr>success = False, output_text = None, error = None, submission_result = None\<rparr>;
          (ended, captured, w1) =
            (case code of
               None \<Rightarrow>
                 (Raised ''TypeError: exec() arg 1 must be a string, bytes or code object'', [], w)
             | Some c \<Rightarrow>
                 (fst (runs w (n_runs w)), snd (runs w (n_runs w)),
                  w\<lparr>n_runs := Suc (n_runs w),
                    events := events w @
                      [Exec c (STUDENT_EMAIL st) (STUDENT_SECRET st) quiz_url]\<rparr>));
          result1 = (case ended of
                       Returned \<Rightarrow> result0\<lparr>success := True\<rparr>
                     | Raised error_msg \<Rightarrow> result0\<lparr>error := Some error_msg\<rparr>
                     | Escaped _ \<Rightarrow> result0);
          result2 = result1\<lparr>output_text := Some captured\<rparr>;
          result3 = (if captured \<noteq> []
                     then result2\<lparr>submission_result := Some (parse_submission_result rt captured)\<rparr>
                     else result2\<lparr>submission_result := Some []\<rparr>)
      in (case ended of
            Escaped name \<Rightarrow> (Inl name, w1)
          | _ \<Rightarrow> (Inr result3, w1)))"

section \<open>The sequence controller\<close>

datatype status = Correct | Incorrect | Skipped | Error

record outcome =
  status :: status
  next_url :: pyval

record handler =
  email :: string
  secret :: string

definition error_outcome :: outcome where
  "error_outcome = \<lparr>status = Error, next_url = PNone\<rparr>"

text \<open>
  \<^verbatim>\<open>submit_fallback\<close>: the payload is built from the settings; the result is the response,
  or \<^verbatim>\<open>None\<close> when the POST raised.
\<close>

definition submit_fallback ::
  "settings \<Rightarrow> handler \<Rightarrow> pyval \<Rightarrow> world \<Rightarrow> (exn + pyval) option \<times> world" where
  "submit_fallback st self quiz_url w =
     (let payload = \<lparr>fp_email = STUDENT_EMAIL st, fp_secret = STUDENT_SECRET st,
                      fp_url = quiz_url, fp_answer = ''FAILED''\<rparr>
      in (posts w (n_posts w),
          w\<lparr>n_posts := Suc (n_posts w), events := events w @ [Post quiz_url payload]\<rparr>))"

text \<open>
  The block that follows each fallback submission:
  \<^verbatim>\<open>try: data = fallback_resp.json(); next_url = data.get("url", None);
       return {"next_url": next_url, "status": "incorrect"}
  except: return {'status': 'error', 'next_url': None}\<close>.
  \<^verbatim>\<open>fallback_resp\<close> may be \<^verbatim>\<open>None\<close>, \<^verbatim>\<open>json()\<close> may raise, the JSON value may be no dict.
\<close>

definition fallback_outcome :: "(exn + pyval) option \<Rightarrow> outcome" where
  "fallback_outcome fallback_resp =
     (case fallback_resp of
        None \<Rightarrow> error_outcome
      | Some (Inl _) \<Rightarrow> error_outcome
      | Some (Inr data) \<Rightarrow>
          (case py_get data ''url'' of
             Inl _ \<Rightarrow> error_outcome
           | Inr u \<Rightarrow> \<lparr>status = Incorrect, next_url = u\<rparr>))"

definition fallback_submit :: "settings \<Rightarrow> handler \<Rightarrow> pyval \<Rightarrow> world \<Rightarrow> outcome \<times> world" where
  "fallback_submit st self quiz_url w =
     (let (fallback_resp, w1) = submit_fallback st self quiz_url w
      in (fallback_outcome fallback_resp, w1))"

text \<open>
  The methods below return \<open>Inr\<close> with their outcome, or \<open>Inl\<close> with the name of an
  exception outside \<^verbatim>\<open>Exception\<close> that an execution raised: their handlers are
  \<^verbatim>\<open>except Exception\<close> and let it pass.
\<close>

definition returned :: "outcome \<times> world \<Rightarrow> (string + outcome) \<times> world" where
  "returned r = (Inr (fst r), snd r)"

definition retry_with_fix ::
  "runtime \<Rightarrow> settings \<Rightarrow> handler \<Rightarrow> question_data \<Rightarrow> pyval \<Rightarrow> string \<Rightarrow> string option \<Rightarrow> real
     \<Rightarrow> world \<Rightarrow> (string + outcome) \<times> world" where
  "retry_with_fix rt st self qd quiz_url failed_code err start_time w =
     (let (remaining, w1) = remaining_time st start_time w in
      if remaining < real_of_int (SKIP_THRESHOLD_SECONDS st) then (Inr error_outcome, w1)
      else
        (let (fixed, w2) = analyze_error_and_retry st qd failed_code err w1 in
         case fixed of
           Inl _ \<Rightarrow> (Inr error_outcome, w2)
         | Inr fixed_code \<Rightarrow>
             (let (ran, w3) = execute_code rt st (Some fixed_code) quiz_url w2 in
              case ran of
                Inl escaped \<Rightarrow> (Inl escaped, w3)
              | Inr res \<Rightarrow>
                  (if \<not> success res then (Inr error_outcome, w3)
                   else
                     (case submission_result res of
                        None \<Rightarrow> (Inr error_outcome, w3)
                      | Some sub \<Rightarrow>
                          (if truthy (dict_get sub ''correct'')
                           then (Inr \<lparr>status = Correct, next_url = dict_get sub ''next_url''\<rparr>, w3)
                           else (Inr \<lparr>status = Incorrect, next_url = dict_get sub ''next_url''\<rparr>,
                                 w3)))))))"

definition retry_with_feedback ::
  "runtime \<Rightarrow> settings \<Rightarrow> handler \<Rightarrow> question_data \<Rightarrow> pyval \<Rightarrow> pyval \<Rightarrow> string \<Rightarrow> string option
     \<Rightarrow> real \<Rightarrow> world \<Rightarrow> (string + outcome) \<times> world" where
  "retry_with_feedback rt st self qd quiz_url error_reason failed_code previous_output start_time w =
     (let (remaining, w1) = remaining_time st start_time w in
      if remaining < real_of_int (SKIP_THRESHOLD_SECONDS st)
      then (Inr \<lparr>status = Incorrect, next_url = PNone\<rparr>, w1)
      else
        (let (retry_code, w2) =
               generate_solution st qd error_reason (Some failed_code) previous_output w1;
             (ran, w3) = execute_code rt st retry_code quiz_url w2
         in
           case ran of
             Inl escaped \<Rightarrow> (Inl escaped, w3)
           | Inr res \<Rightarrow>
               (if \<not> success res then (Inr error_outcome, w3)
                else
                  (case submission_result res of
                     None \<Rightarrow> (Inr error_outcome, w3)
                   | Some sub \<Rightarrow>
                       (if sub = [] then (Inr error_outcome, w3)
                        else if truthy (dict_get sub ''correct'')
                        then (Inr \<lparr>status = Correct, next_url = dict_get sub ''next_url''\<rparr>, w3)
                        else (Inr \<lparr>status = Incorrect, next_url = dict_get sub ''next_url''\<rparr>,
                              w3))))))"

text \<open>
  \<^verbatim>\<open>solve_single_quiz\<close>, step 2: the code to execute, or the outcome the question ends
  with when none could be generated.
\<close>

definition obtain_solution ::
  "settings \<Rightarrow> handler \<Rightarrow> question_data \<Rightarrow> pyval \<Rightarrow> real \<Rightarrow> world \<Rightarrow> (outcome + string) \<times> world" where
  "obtain_solution st self qd quiz_url start_time w =
     (let (solution_code, w1) = generate_solution st qd PNone None None w in
      case solution_code of
        Some code \<Rightarrow> (Inr code, w1)
      | None \<Rightarrow>
          (let (remaining, w2) = remaining_time st start_time w1 in
           if remaining > real_of_int (SKIP_THRESHOLD_SECONDS st * 2) then
             (let (solution_code2, w3) = generate_solution st qd PNone None None w2 in
              case solution_code2 of
                None \<Rightarrow> (Inl error_outcome, w3)
              | Some code \<Rightarrow> (Inr code, w3))
           else
             (let (res, w3) = fallback_submit st self quiz_url w2 in (Inl res, w3))))"

text \<open>Step 4: the decision on the submission of a successful execution.\<close>

definition judge_submission ::
  "runtime \<Rightarrow> settings \<Rightarrow> handler \<Rightarrow> question_data \<Rightarrow> pyval \<Rightarrow> string \<Rightarrow> real \<Rightarrow> execution_result
     \<Rightarrow> world \<Rightarrow> (string + outcome) \<times> world" where
  "judge_submission rt st self qd quiz_url solution_code start_time res w =
     (let previous_output = output_text res in
      case submission_result res of
        None \<Rightarrow> returned (fallback_submit st self quiz_url w)
      | Some sub \<Rightarrow>
          (if sub = [] then returned (fallback_submit st self quiz_url w)
           else if truthy (dict_get sub ''correct'')
           then (Inr \<lparr>status = Correct, next_url = dict_get sub ''next_url''\<rparr>, w)
           else if dict_get sub ''correct'' = PBool False then
             (let reason = dict_get_default sub ''reason'' (PStr ''No reason provided'');
                  (remaining, w1) = remaining_time st start_time w;
                  nxt = dict_get sub ''next_url''
              in
                if remaining > real_of_int (SKIP_THRESHOLD_SECONDS st * 2) then
                  (let (retried, w2) =
                         retry_with_feedback rt st self qd quiz_url reason solution_code
                           previous_output start_time w1
                   in
                     case retried of
                       Inl escaped \<Rightarrow> (Inl escaped, w2)
                     | Inr retry_result \<Rightarrow>
                         (if \<not> truthy (next_url retry_result) \<and> truthy nxt
                          then (Inr (retry_result\<lparr>next_url := nxt\<rparr>), w2)
                          else (Inr retry_result, w2)))
                else if truthy nxt then (Inr \<lparr>status = Skipped, next_url = nxt\<rparr>, w1)
                else (Inr \<lparr>status = Incorrect, next_url = PNone\<rparr>, w1))
           else (Inr error_outcome, w)))"

text \<open>Step 3: the execution, the two ways on when it failed, step 4 when it succeeded.\<close>

definition execute_solution ::
  "runtime \<Rightarrow> settings \<Rightarrow> handler \<Rightarrow> question_data \<Rightarrow> pyval \<Rightarrow> string \<Rightarrow> real \<Rightarrow> world
     \<Rightarrow> (string + outcome) \<times> world" where
  "execute_solution rt st self qd quiz_url solution_code start_time w =
     (let (ran, w1) = execute_code rt st (Some solution_code) quiz_url w in
      case ran of
        Inl escaped \<Rightarrow> (Inl escaped, w1)
      | Inr res \<Rightarrow>
          (if \<not> success res then
             (let (remaining, w2) = remaining_time st start_time w1 in
              if remaining > real_of_int (SKIP_THRESHOLD_SECONDS st * 2)
              then retry_with_fix rt st self qd quiz_url solution_code (error res) start_time w2
              else returned (fallback_submit st self quiz_url w2))
           else judge_submission rt st self qd quiz_url solution_code start_time res w1))"

text \<open>
  \<^verbatim>\<open>solve_single_quiz\<close>. Of the calls inside its \<^verbatim>\<open>try\<close> only the browser raises an
  \<^verbatim>\<open>Exception\<close> (the other callees catch theirs); the handler turns that into the error
  outcome. What an execution raises outside \<^verbatim>\<open>Exception\<close> passes through.
\<close>

definition solve_single_quiz ::
  "runtime \<Rightarrow> settings \<Rightarrow> handler \<Rightarrow> pyval \<Rightarrow> real \<Rightarrow> real \<Rightarrow> world
     \<Rightarrow> (string + outcome) \<times> world" where
  "solve_single_quiz rt st self quiz_url time_remaining start_time w =
     (let (page, w1) = visit_quiz_page quiz_url w in
      case page of
        None \<Rightarrow> (Inr error_outcome, w1)
      | Some qd \<Rightarrow>
          (let (got, w2) = obtain_solution st self qd quiz_url start_time w1 in
           case got of
             Inl res \<Rightarrow> (Inr res, w2)
           | Inr solution_code \<Rightarrow>
               execute_solution rt st self qd quiz_url solution_code start_time w2))"

text \<open>
  \<^verbatim>\<open>solve_quiz_sequence\<close>. The chain may go on for ever, so the loop carries fuel: one unit
  per question. The result says how the loop ended (by itself, out of fuel, or left by
  an exception outside \<^verbatim>\<open>Exception\<close>), and gives the counters and the world reached. The
  clock is read three times before each question (the question's own start, the elapsed
  time, the logged total) and once after the loop.
\<close>

record stats =
  total_count :: nat
  correct_count :: nat
  incorrect_count :: nat
  skipped_count :: nat
  errors_count :: nat

definition count_result :: "stats \<Rightarrow> outcome \<Rightarrow> stats" where
  "count_result s result =
     (let s1 = s\<lparr>total_count := total_count s + 1\<rparr> in
      case status result of
        Correct \<Rightarrow> s1\<lparr>correct_count := correct_count s1 + 1\<rparr>
      | Incorrect \<Rightarrow> s1\<lparr>incorrect_count := incorrect_count s1 + 1\<rparr>
      | Error \<Rightarrow> s1\<lparr>errors_count := errors_count s1 + 1\<rparr>
      | Skipped \<Rightarrow> s1\<lparr>skipped_count := skipped_count s1 + 1\<rparr>)"

datatype loop_end = Finished | Out_Of_Fuel | Left string

fun sequence_loop ::
  "nat \<Rightarrow> runtime \<Rightarrow> settings \<Rightarrow> handler \<Rightarrow> real \<Rightarrow> pyval \<Rightarrow> stats \<Rightarrow> world
     \<Rightarrow> loop_end \<times> stats \<times> world" where
  "sequence_loop 0 rt st self sequence_start_time current_url s w =
     (if \<not> truthy current_url then Finished else Out_Of_Fuel, s, w)"
| "sequence_loop (Suc fuel) rt st self sequence_start_time current_url s w =
     (if \<not> truthy current_url then (Finished, s, w)
      else
        (let (question_start_time, w1) = now w;
             (t, w2) = now w1;
             elapsed = t - question_start_time;
             remaining = real_of_int (QUIZ_TIMEOUT_SECONDS st) - elapsed;
             (t', w3) = now w2;
             (solved, w4) =
               solve_single_quiz rt st self current_url remaining question_start_time w3
         in
           case solved of
             Inl escaped \<Rightarrow> (Left escaped, s, w4)
           | Inr result \<Rightarrow>
               (if truthy (next_url result)
                then sequence_loop fuel rt st self sequence_start_time (next_url result)
                       (count_result s result) w4
                else (Finished, count_result s result, w4))))"

definition solve_quiz_sequence ::
  "nat \<Rightarrow> runtime \<Rightarrow> settings \<Rightarrow> handler \<Rightarrow> pyval \<Rightarrow> real \<Rightarrow> world
     \<Rightarrow> loop_end \<times> stats \<times> world" where
  "solve_quiz_sequence fuel rt st self initial_url sequence_start_time w =
     (let s0 = \<lparr>total_count = 0, correct_count = 0, incorrect_count = 0, skipped_count = 0,
                 errors_count = 0\<rparr>;
          (ended, s, w1) = sequence_loop fuel rt st self sequence_start_time initial_url s0 w
      in if ended = Finished then (Finished, s, snd (now w1)) else (ended, s, w1))"

section \<open>The webhook\<close>

text \<open>
  \<^verbatim>\<open>handle_quiz\<close>, from the validated request on (\<^verbatim>\<open>QuizRequest\<close> has the three string
  fields \<^verbatim>\<open>email\<close>, \<^verbatim>\<open>secret\<close>, \<^verbatim>\<open>url\<close>). The chain runs as a background task after the
  reply; here its effect on the world is part of the result. (\<^verbatim>\<open>solve_quiz_async\<close> catches
  \<^verbatim>\<open>Exception\<close> only, so the task ends where the loop ended.)
\<close>

record quiz_request =
  req_email :: string
  req_secret :: string
  req_url :: string

datatype http_reply = Accepted string string | Refused nat

definition solve_quiz_async ::
  "nat \<Rightarrow> runtime \<Rightarrow> settings \<Rightarrow> string \<Rightarrow> string \<Rightarrow> string \<Rightarrow> real \<Rightarrow> world \<Rightarrow> world" where
  "solve_quiz_async fuel rt st quiz_url email_arg secret_arg start_time w =
     (let self = \<lparr>email = email_arg, secret = secret_arg\<rparr>
      in snd (snd (solve_quiz_sequence fuel rt st self (PStr quiz_url) start_time w)))"

definition handle_quiz ::
  "nat \<Rightarrow> runtime \<Rightarrow> settings \<Rightarrow> quiz_request \<Rightarrow> world \<Rightarrow> http_reply \<times> world" where
  "handle_quiz fuel rt st quiz_data w =
     (let (start_time, w1) = now w in
      if req_secret quiz_data \<noteq> STUDENT_SECRET st then (Refused 403, w1)
      else (Accepted (req_email quiz_data) (req_url quiz_data),
            solve_quiz_async fuel rt st (req_url quiz_data) (req_email quiz_data)
              (req_secret quiz_data) start_time w1))"

section \<open>Notions used in the statements\<close>

definition verdict_keys :: "string list" where
  "verdict_keys = [''correct'', ''next_url'', ''reason'', ''status_code'']"

text \<open>
  \<open>indeterminate\<close>: a value of \<open>correct\<close> that fails both tests of the controller,
  \<^verbatim>\<open>if correct\<close> and \<^verbatim>\<open>elif correct is False\<close>.
\<close>

definition indeterminate :: "pyval \<Rightarrow> bool" where
  "indeterminate v = (\<not> truthy v \<and> v \<noteq> PBool False)"


text \<open>The body of the fallback POST.\<close>

definition failed_payload :: "settings \<Rightarrow> pyval \<Rightarrow> fallback_payload" where
  "failed_payload st quiz_url =
     \<lparr>fp_email = STUDENT_EMAIL st, fp_secret = STUDENT_SECRET st, fp_url = quiz_url,
      fp_answer = ''FAILED''\<rparr>"

subsection \<open>Sample worlds for the closed examples\<close>

text \<open>
  A world given by finite scripts (a default answers the calls past the end of a
  script), the settings with the defaults of \<^verbatim>\<open>config.py\<close>, and a handler built for a
  request whose email is not the configured one.
\<close>

definition script :: "'a \<Rightarrow> 'a list \<Rightarrow> nat \<Rightarrow> 'a" where
  "script dflt xs n = (if n < length xs then xs ! n else dflt)"

definition scripted_world ::
  "real list \<Rightarrow> (string \<times> string) option list \<Rightarrow> string option list
     \<Rightarrow> (exec_end \<times> string) list \<Rightarrow> (exn + pyval) option list \<Rightarrow> world" where
  "scripted_world ts ps ls rs qs =
     \<lparr>clock = script 0 ts, pages = script None ps, llm = script None ls,
      runs = script (Returned, []) rs, posts = script None qs,
      n_clock = 0, n_pages = 0, n_llm = 0, n_runs = 0, n_posts = 0, events = []\<rparr>"

definition one_question_world ::
  "real list \<Rightarrow> string option list \<Rightarrow> (exec_end \<times> string) list
     \<Rightarrow> (exn + pyval) option list \<Rightarrow> world" where
  "one_question_world ts ls rs qs =
     scripted_world ts [Some (''What is 1 + 1?'', ''<p>What is 1 + 1?</p>'')] ls rs qs"

definition sample_settings :: settings where
  "sample_settings =
     \<lparr>STUDENT_EMAIL = ''24f1001827@ds.study.iitm.ac.in'', STUDENT_SECRET = ''s3cret'',
      QUIZ_TIMEOUT_SECONDS = 180, SKIP_THRESHOLD_SECONDS = 15\<rparr>"

definition sample_handler :: handler where
  "sample_handler = \<lparr>email = ''someone@example.org'', secret = ''s3cret''\<rparr>"

section \<open>Properties of the output parser\<close>

subsection \<open>The verdict keeps its four keys and its status code\<close>

lemma keys_dict_set: "k \<in> set (map fst d) \<Longrightarrow> map fst (dict_set d k v) = map fst d"
  by (simp add: dict_set_def update_keys)

lemma keys_empty_verdict: "map fst empty_verdict = verdict_keys"
  by (simp add: empty_verdict_def verdict_keys_def)

lemma keys_take_fields:
  assumes "take_fields data sub = Inr sub'" and "map fst sub = verdict_keys"
  shows "map fst sub' = verdict_keys"
proof -
  from assms(1) obtain c u n r where
    sub': "sub' = dict_set (dict_set (dict_set sub ''correct'' c) ''next_url'' (py_or u n)) ''reason'' r"
    by (auto simp: take_fields_def split: sum.splits)
  have "map fst (dict_set sub ''correct'' c) = verdict_keys"
    using assms(2) by (simp add: keys_dict_set verdict_keys_def)
  then have "map fst (dict_set (dict_set sub ''correct'' c) ''next_url'' (py_or u n)) = verdict_keys"
    by (simp add: keys_dict_set verdict_keys_def)
  then show ?thesis
    unfolding sub' by (simp add: keys_dict_set verdict_keys_def)
qed

lemma keys_parse_status:
  "map fst sub = verdict_keys \<Longrightarrow> map fst (fst (parse_status rt output sub)) = verdict_keys"
  by (auto simp: parse_status_def keys_dict_set verdict_keys_def split: option.splits sum.splits)

lemma keys_parse_response:
  "map fst sub = verdict_keys \<Longrightarrow> map fst (fst (parse_response rt output sub)) = verdict_keys"
  by (auto simp: parse_response_def split: option.splits sum.splits if_splits dest: keys_take_fields)

lemma keys_scavenge_loop:
  "map fst sub = verdict_keys \<Longrightarrow> map fst (fst (scavenge_loop rt ms sub)) = verdict_keys"
  by (induction ms) (auto split: sum.splits dest: keys_take_fields)

lemma keys_scavenge:
  "map fst sub = verdict_keys \<Longrightarrow> map fst (fst (scavenge rt output sub)) = verdict_keys"
  by (simp add: scavenge_def keys_scavenge_loop)

lemma parse_submission_result_cases:
  "parse_submission_result rt output =
     (if snd (parse_status rt output empty_verdict) \<noteq> None
      then fst (parse_status rt output empty_verdict)
      else if snd (parse_response rt output (fst (parse_status rt output empty_verdict))) \<noteq> None
      then fst (parse_response rt output (fst (parse_status rt output empty_verdict)))
      else fst (scavenge rt output
                  (fst (parse_response rt output (fst (parse_status rt output empty_verdict))))))"
  by (auto simp: parse_submission_result_def split: prod.splits option.splits)

lemma keys_parse_submission_result: "map fst (parse_submission_result rt output) = verdict_keys"
  by (simp add: parse_submission_result_cases keys_parse_status keys_parse_response keys_scavenge
      keys_empty_verdict)

lemma parse_nonempty: "parse_submission_result rt out \<noteq> []"
  using keys_parse_submission_result [of rt out] by (auto simp: verdict_keys_def)


lemma dict_get_dict_set: "dict_get (dict_set d k v) k' = (if k' = k then v else dict_get d k')"
  by (simp add: dict_get_def dict_set_def update_conv')

lemma status_take_fields:
  "take_fields data sub = Inr sub' \<Longrightarrow> dict_get sub' ''status_code'' = dict_get sub ''status_code''"
  by (auto simp: take_fields_def dict_get_dict_set split: sum.splits)

lemma status_parse_response:
  "dict_get (fst (parse_response rt output sub)) ''status_code'' = dict_get sub ''status_code''"
  by (auto simp: parse_response_def split: option.splits sum.splits dest: status_take_fields)

lemma status_scavenge_loop:
  "dict_get (fst (scavenge_loop rt ms sub)) ''status_code'' = dict_get sub ''status_code''"
  by (induction ms) (auto split: sum.splits dest: status_take_fields)

lemma status_scavenge:
  "dict_get (fst (scavenge rt output sub)) ''status_code'' = dict_get sub ''status_code''"
  by (simp add: scavenge_def status_scavenge_loop)

lemma status_code_kept:
  "dict_get (parse_submission_result rt output) ''status_code''
     = dict_get (fst (parse_status rt output empty_verdict)) ''status_code''"
  by (simp add: parse_submission_result_cases status_parse_response status_scavenge)


lemma scavenge_loop_first_good:
  assumes "\<forall>b\<in>set bad. isl (json_loads rt b) \<and> isl (literal_eval rt b)"
    and "json_loads rt m = Inr d \<or> (isl (json_loads rt m) \<and> literal_eval rt m = Inr d)"
  shows "scavenge_loop rt (bad @ m # ms) sub =
     (case take_fields d sub of Inl e \<Rightarrow> (sub, Some e) | Inr sub' \<Rightarrow> (sub', None))"
  using assms by (induction bad) (auto split: sum.splits)

lemma take_fields_dict:
  "take_fields (PDict kvs) sub =
     Inr (dict_set (dict_set (dict_set sub ''correct'' (dict_entry kvs ''correct''))
            ''next_url'' (py_or (dict_entry kvs ''url'') (dict_entry kvs ''next_url'')))
            ''reason'' (dict_entry kvs ''reason''))"
  by (simp add: take_fields_def)

lemma take_fields_no_dict: "\<forall>kvs. d \<noteq> PDict kvs \<Longrightarrow> take_fields d sub = Inl AttributeError"
  by (cases d) (simp_all add: take_fields_def)


lemma response_body_correct:
  assumes "rx_search True response_re output = Some (Some blob, rest)"
    and "decode_response rt blob = Inr (PDict kvs)" and "kvs \<noteq> []"
  shows "dict_get (fst (parse_response rt output sub)) ''correct'' = dict_entry kvs ''correct''"
  using assms by (simp add: parse_response_def take_fields_dict dict_get_dict_set)

lemma scavenge_keeps_correct:
  "dict_get sub ''correct'' \<noteq> PNone \<Longrightarrow> scavenge rt output sub = (sub, None)"
  by (simp add: scavenge_def)




subsection \<open>The gate of the scavenger\<close>

text \<open>
  Claim C2, as amended. The scavenger leaves the verdict alone whenever \<open>correct\<close> is not
  \<open>None\<close> when it is reached; the status code of step 1 is never changed by a later step;
  and when the response-body step leaves \<open>correct\<close> different from \<open>None\<close> (for instance
  \<open>False\<close>) or ends with an exception, the verdict returned is exactly the one that step
  produced, whatever brace blobs follow in the text. When \<open>correct\<close> is still \<open>None\<close> and
  step 2 ended without exception, the scavenger passes over the candidates that both
  decoders reject and stops at the first candidate that a decoder accepts, whatever
  follows it. If that candidate decoded to a dict, its \<open>correct\<close>, its \<open>url\<close> (or, when
  that is falsy, its \<open>next_url\<close>) and its \<open>reason\<close> are stored together, in place of
  whatever the response-body step had stored. If it decoded to anything else (the set
  \<^verbatim>\<open>{'correct'}\<close>, say), \<^verbatim>\<open>.get\<close> raises, nothing is stored and the verdict is returned
  as step 2 left it.
\<close>

theorem scavenger_gate:
  "(dict_get s2 ''correct'' \<noteq> PNone \<longrightarrow> scavenge rt output s2 = (s2, None))
   \<and> dict_get (parse_submission_result rt output) ''status_code''
       = dict_get (fst (parse_status rt output empty_verdict)) ''status_code''
   \<and> (parse_status rt output empty_verdict = (s1, None) \<and> parse_response rt output s1 = (s2, e2)
        \<and> (dict_get s2 ''correct'' \<noteq> PNone \<or> e2 \<noteq> None)
      \<longrightarrow> parse_submission_result rt output = s2)
   \<and> (parse_status rt output empty_verdict = (s1, None) \<and> parse_response rt output s1 = (s2, None)
        \<and> dict_get s2 ''correct'' = PNone
        \<and> rx_findall False fallback_re output = bad @ m # ms
        \<and> (\<forall>b\<in>set bad. isl (json_loads rt b) \<and> isl (literal_eval rt b))
        \<and> (json_loads rt m = Inr d \<or> (isl (json_loads rt m) \<and> literal_eval rt m = Inr d))
      \<longrightarrow> (d = PDict kvs \<longrightarrow>
             parse_submission_result rt output
               = dict_set (dict_set (dict_set s2 ''correct'' (dict_entry kvs ''correct''))
                   ''next_url'' (py_or (dict_entry kvs ''url'') (dict_entry kvs ''next_url'')))
                   ''reason'' (dict_entry kvs ''reason''))
          \<and> ((\<forall>kvs'. d \<noteq> PDict kvs') \<longrightarrow> parse_submission_result rt output = s2))"
proof (intro conjI impI)
  assume "dict_get s2 ''correct'' \<noteq> PNone"
  then show "scavenge rt output s2 = (s2, None)"
    by (rule scavenge_keeps_correct)
next
  show "dict_get (parse_submission_result rt output) ''status_code''
       = dict_get (fst (parse_status rt output empty_verdict)) ''status_code''"
    by (rule status_code_kept)
next
  assume "parse_status rt output empty_verdict = (s1, None) \<and> parse_response rt output s1 = (s2, e2)
        \<and> (dict_get s2 ''correct'' \<noteq> PNone \<or> e2 \<noteq> None)"
  then show "parse_submission_result rt output = s2"
    by (auto simp: parse_submission_result_def scavenge_def split: option.splits)
next
  assume a: "parse_status rt output empty_verdict = (s1, None) \<and> parse_response rt output s1 = (s2, None)
        \<and> dict_get s2 ''correct'' = PNone
        \<and> rx_findall False fallback_re output = bad @ m # ms
        \<and> (\<forall>b\<in>set bad. isl (json_loads rt b) \<and> isl (literal_eval rt b))
        \<and> (json_loads rt m = Inr d \<or> (isl (json_loads rt m) \<and> literal_eval rt m = Inr d))"
  then have "scavenge_loop rt (bad @ m # ms) s2
      = (case take_fields d s2 of Inl e \<Rightarrow> (s2, Some e) | Inr sub' \<Rightarrow> (sub', None))"
    by (intro scavenge_loop_first_good) simp_all
  with a have p: "parse_submission_result rt output
      = fst (case take_fields d s2 of Inl e \<Rightarrow> (s2, Some e) | Inr sub' \<Rightarrow> (sub', None))"
    by (simp add: parse_submission_result_def scavenge_def)
  show "parse_submission_result rt output
               = dict_set (dict_set (dict_set s2 ''correct'' (dict_entry kvs ''correct''))
                   ''next_url'' (py_or (dict_entry kvs ''url'') (dict_entry kvs ''next_url'')))
                   ''reason'' (dict_entry kvs ''reason'')" if "d = PDict kvs"
    unfolding p that by (simp add: take_fields_dict)
  show "parse_submission_result rt output = s2" if "\<forall>kvs'. d \<noteq> PDict kvs'"
    unfolding p by (simp add: take_fields_no_dict [OF that])
qed

theorem scavenger_gate_witness:
  \<open>parse_submission_result flat_runtime ''Status: 200 Response: {"correct": false} {"correct": true}''
     = [(''correct'', PBool False), (''next_url'', PNone), (''reason'', PNone), (''status_code'', PInt 200)]
   \<and> rx_findall False fallback_re ''Status: 200 Response: {"correct": false} {"correct": true}''
     = [''{"correct": false}'', ''{"correct": true}'']
   \<and> parse_submission_result flat_runtime ''Response: {"url": "u"} {"correct" nope} {'correct': True}''
     = [(''correct'', PBool True), (''next_url'', PNone), (''reason'', PNone), (''status_code'', PNone)]
   \<and> parse_submission_result flat_runtime ''Response: {"url": "u"} {'correct'} {"correct": true}''
     = [(''correct'', PNone), (''next_url'', PStr ''u''), (''reason'', PNone), (''status_code'', PNone)]\<close>
proof -
  let ?out = \<open>''Status: 200 Response: {"correct": false} {"correct": true}''\<close>
  let ?s1 = "[(''correct'', PNone), (''next_url'', PNone), (''reason'', PNone), (''status_code'', PInt 200)]"
  let ?s2 = "[(''correct'', PBool False), (''next_url'', PNone), (''reason'', PNone), (''status_code'', PInt 200)]"
  have h1: "parse_status flat_runtime ?out empty_verdict = (?s1, None)"
    by code_simp
  have h2: "parse_response flat_runtime ?out ?s1 = (?s2, None)"
    by code_simp
  have h3: "dict_get ?s2 ''correct'' \<noteq> PNone"
    by code_simp
  have f: \<open>rx_findall False fallback_re ?out = [''{"correct": false}'', ''{"correct": true}'']\<close>
    by code_simp
  have A: "parse_submission_result flat_runtime ?out = ?s2"
    using scavenger_gate [where ?s2.0 = ?s2 and rt = flat_runtime and ?output = ?out and ?s1.0 = ?s1
        and ?e2.0 = None] h1 h2 h3
    by blast
  let ?t2 = "[(''correct'', PNone), (''next_url'', PStr ''u''), (''reason'', PNone), (''status_code'', PNone)]"
  let ?t3 = "[(''correct'', PBool True), (''next_url'', PNone), (''reason'', PNone), (''status_code'', PNone)]"
  let ?out1 = \<open>''Response: {"url": "u"} {"correct" nope} {'correct': True}''\<close>
  let ?kvs = "[(PStr ''correct'', PBool True)]"
  have g0: "parse_status flat_runtime ?out1 empty_verdict = (empty_verdict, None)
      \<and> parse_response flat_runtime ?out1 empty_verdict = (?t2, None)"
    by code_simp
  have g1: "dict_get ?t2 ''correct'' = PNone"
    by code_simp
  have g2: \<open>rx_findall False fallback_re ?out1 = [''{"correct" nope}''] @ ''{'correct': True}'' # []\<close>
    by code_simp
  have g3: \<open>\<forall>b\<in>set [''{"correct" nope}'']. isl (json_loads flat_runtime b) \<and> isl (literal_eval flat_runtime b)\<close>
    by code_simp
  have g4: \<open>isl (json_loads flat_runtime ''{'correct': True}'')
      \<and> literal_eval flat_runtime ''{'correct': True}'' = Inr (PDict ?kvs)\<close>
    by code_simp
  have g5: "dict_set (dict_set (dict_set ?t2 ''correct'' (dict_entry ?kvs ''correct''))
                   ''next_url'' (py_or (dict_entry ?kvs ''url'') (dict_entry ?kvs ''next_url'')))
                   ''reason'' (dict_entry ?kvs ''reason'') = ?t3"
    by code_simp
  have B: "parse_submission_result flat_runtime ?out1 = ?t3"
    using scavenger_gate [where ?s1.0 = empty_verdict and ?s2.0 = ?t2 and rt = flat_runtime
        and ?output = ?out1 and bad = \<open>[''{"correct" nope}'']\<close> and m = \<open>''{'correct': True}''\<close>
        and ms = "[]" and d = "PDict ?kvs" and kvs = ?kvs] g0 g1 g2 g3 g4
    unfolding g5 by blast
  let ?out2 = \<open>''Response: {"url": "u"} {'correct'} {"correct": true}''\<close>
  let ?set = "PSet [PStr ''correct'']"
  have k0: "parse_status flat_runtime ?out2 empty_verdict = (empty_verdict, None)
      \<and> parse_response flat_runtime ?out2 empty_verdict = (?t2, None)"
    by code_simp
  have k2: \<open>rx_findall False fallback_re ?out2 = [] @ ''{'correct'}'' # [''{"correct": true}'']\<close>
    by code_simp
  have k4: \<open>isl (json_loads flat_runtime ''{'correct'}'')
      \<and> literal_eval flat_runtime ''{'correct'}'' = Inr ?set\<close>
    by code_simp
  have k5: "\<forall>kvs'. ?set \<noteq> PDict kvs'"
    by simp
  have C: "parse_submission_result flat_runtime ?out2 = ?t2"
    using scavenger_gate [where ?s1.0 = empty_verdict and ?s2.0 = ?t2 and rt = flat_runtime
        and ?output = ?out2 and bad = "[]" and m = \<open>''{'correct'}''\<close>
        and ms = \<open>[''{"correct": true}'']\<close> and d = ?set] k0 g1 k2 k4 k5
    by simp
  show ?thesis
    using A B C f by blast
qed

text \<open>
  Claim C2, as stated, fails for \<open>next_url\<close> and \<open>reason\<close>: a response body without a
  \<open>correct\<close> key sets \<open>next_url\<close>, leaves \<open>correct\<close> at \<open>None\<close>, and the scavenger then
  replaces \<open>next_url\<close> by what its own blob holds, here \<open>None\<close>.
\<close>

theorem later_step_overwrites_counterexample:
  \<open>parse_response flat_runtime ''Response: {"url": "u"} {"correct": true}'' empty_verdict
     = ([(''correct'', PNone), (''next_url'', PStr ''u''), (''reason'', PNone), (''status_code'', PNone)],
        None)
   \<and> parse_submission_result flat_runtime ''Response: {"url": "u"} {"correct": true}''
     = [(''correct'', PBool True), (''next_url'', PNone), (''reason'', PNone), (''status_code'', PNone)]\<close>
  by code_simp

subsection \<open>The submission of an execution\<close>




section \<open>Properties of the sequence controller\<close>

subsection \<open>The calls in closed form\<close>

lemma remaining_time_eq:
  "remaining_time st start_time w =
     (real_of_int (QUIZ_TIMEOUT_SECONDS st) - (clock w (n_clock w) - start_time),
      w\<lparr>n_clock := Suc (n_clock w)\<rparr>)"
  by (simp add: remaining_time_def now_def)

lemma fallback_submit_eq:
  "fallback_submit st self quiz_url w =
     (fallback_outcome (posts w (n_posts w)),
      w\<lparr>n_posts := Suc (n_posts w), events := events w @ [Post quiz_url (failed_payload st quiz_url)]\<rparr>)"
  by (simp add: fallback_submit_def submit_fallback_def failed_payload_def)

lemma execute_code_Some:
  "execute_code rt st (Some c) quiz_url w =
     (case fst (runs w (n_runs w)) of
        Returned \<Rightarrow>
          Inr \<lparr>success = True, output_text = Some (snd (runs w (n_runs w))), error = None,
               submission_result =
                 Some (if snd (runs w (n_runs w)) = [] then []
                       else parse_submission_result rt (snd (runs w (n_runs w))))\<rparr>
      | Raised msg \<Rightarrow>
          Inr \<lparr>success = False, output_text = Some (snd (runs w (n_runs w))), error = Some msg,
               submission_result =
                 Some (if snd (runs w (n_runs w)) = [] then []
                       else parse_submission_result rt (snd (runs w (n_runs w))))\<rparr>
      | Escaped name \<Rightarrow> Inl name,
      w\<lparr>n_runs := Suc (n_runs w),
        events := events w @ [Exec c (STUDENT_EMAIL st) (STUDENT_SECRET st) quiz_url]\<rparr>)"
  by (simp add: execute_code_def Let_def split: exec_end.splits)

lemma solve_reaches_execution:
  "visit_quiz_page quiz_url w = (Some qd, w1) \<Longrightarrow>
   obtain_solution st self qd quiz_url start_time w1 = (Inr code, w2) \<Longrightarrow>
   solve_single_quiz rt st self quiz_url time_remaining start_time w
     = execute_solution rt st self qd quiz_url code start_time w2"
  by (simp add: solve_single_quiz_def)

lemma execute_solution_success:
  assumes "runs w (n_runs w) = (Returned, out)"
  shows "execute_solution rt st self qd quiz_url code start_time w
     = judge_submission rt st self qd quiz_url code start_time
         \<lparr>success = True, output_text = Some out, error = None,
          submission_result = Some (if out = [] then [] else parse_submission_result rt out)\<rparr>
         (w\<lparr>n_runs := Suc (n_runs w),
            events := events w @ [Exec code (STUDENT_EMAIL st) (STUDENT_SECRET st) quiz_url]\<rparr>)"
  using assms by (simp add: execute_solution_def execute_code_Some)

subsection \<open>No verdict and indeterminate verdict\<close>

text \<open>
  Claim C1, as amended. Take a question whose page loads, for which code is obtained and
  whose execution succeeds. If nothing was printed, the controller posts the answer
  \<open>FAILED\<close> to the quiz URL and returns what the response gives: status incorrect with
  the \<open>url\<close> entry of the response when it is a JSON object, the error outcome when the
  POST raised, the body is no JSON, or the JSON is no object. If something was printed
  and the parsed \<open>correct\<close> is indeterminate (as it is when the parser finds nothing), no
  fallback is posted and the outcome is the error outcome.
\<close>

theorem no_verdict_fallback:
  assumes "visit_quiz_page quiz_url w = (Some qd, w1)"
    and "obtain_solution st self qd quiz_url start_time w1 = (Inr code, w2)"
    and "runs w2 (n_runs w2) = (Returned, out)"
  shows "(out = [] \<longrightarrow>
            fst (solve_single_quiz rt st self quiz_url time_remaining start_time w)
              = Inr (fallback_outcome (posts w2 (n_posts w2)))
          \<and> events (snd (solve_single_quiz rt st self quiz_url time_remaining start_time w))
              = events w2 @ [Exec code (STUDENT_EMAIL st) (STUDENT_SECRET st) quiz_url,
                             Post quiz_url (failed_payload st quiz_url)])
       \<and> (out \<noteq> [] \<and> indeterminate (dict_get (parse_submission_result rt out) ''correct'') \<longrightarrow>
            fst (solve_single_quiz rt st self quiz_url time_remaining start_time w) = Inr error_outcome
          \<and> events (snd (solve_single_quiz rt st self quiz_url time_remaining start_time w))
              = events w2 @ [Exec code (STUDENT_EMAIL st) (STUDENT_SECRET st) quiz_url])
       \<and> fallback_outcome None = error_outcome
       \<and> fallback_outcome (Some (Inl e)) = error_outcome
       \<and> fallback_outcome (Some (Inr (PDict kvs)))
            = \<lparr>status = Incorrect,
               next_url = (case map_of kvs (PStr ''url'') of None \<Rightarrow> PNone | Some u \<Rightarrow> u)\<rparr>
       \<and> ((\<forall>kvs. data \<noteq> PDict kvs) \<longrightarrow> fallback_outcome (Some (Inr data)) = error_outcome)"
proof -
  note solve = solve_reaches_execution [OF assms(1,2), of rt time_remaining]
  have a: "out = [] \<Longrightarrow> solve_single_quiz rt st self quiz_url time_remaining start_time w
      = returned (fallback_submit st self quiz_url (w2\<lparr>n_runs := Suc (n_runs w2),
            events := events w2 @ [Exec code (STUDENT_EMAIL st) (STUDENT_SECRET st) quiz_url]\<rparr>))"
    unfolding solve execute_solution_success [OF assms(3)]
    by (simp add: judge_submission_def)
  have b: "out \<noteq> [] \<Longrightarrow> indeterminate (dict_get (parse_submission_result rt out) ''correct'') \<Longrightarrow>
     solve_single_quiz rt st self quiz_url time_remaining start_time w
      = (Inr error_outcome, w2\<lparr>n_runs := Suc (n_runs w2),
            events := events w2 @ [Exec code (STUDENT_EMAIL st) (STUDENT_SECRET st) quiz_url]\<rparr>)"
    unfolding solve execute_solution_success [OF assms(3)]
    by (simp add: judge_submission_def indeterminate_def parse_nonempty)
  have c: "(\<forall>kvs. data \<noteq> PDict kvs) \<Longrightarrow> fallback_outcome (Some (Inr data)) = error_outcome"
    by (cases data) (simp_all add: fallback_outcome_def)
  show ?thesis
    using a b c by (simp add: fallback_submit_eq fallback_outcome_def returned_def dict_entry_def)
qed

theorem no_verdict_fallback_witness:
  "fst (solve_single_quiz flat_runtime sample_settings sample_handler (PStr ''http://q/1'') 180 0
          (one_question_world [] [Some ''print(1)''] [(Returned, [])]
             [Some (Inr (PDict [(PStr ''url'', PStr ''http://q/2'')]))]))
       = Inr \<lparr>status = Incorrect, next_url = PStr ''http://q/2''\<rparr>
   \<and> events (snd (solve_single_quiz flat_runtime sample_settings sample_handler (PStr ''http://q/1'') 180 0
          (one_question_world [] [Some ''print(1)''] [(Returned, [])]
             [Some (Inr (PDict [(PStr ''url'', PStr ''http://q/2'')]))])))
       = [Visit (PStr ''http://q/1''),
          LLMCall ''24f1001827@ds.study.iitm.ac.in'' ''s3cret''
            (SolvePrompt ''What is 1 + 1?'' (PStr ''http://q/1'') ''24f1001827@ds.study.iitm.ac.in'' ''s3cret'' None),
          Exec ''print(1)'' ''24f1001827@ds.study.iitm.ac.in'' ''s3cret'' (PStr ''http://q/1''),
          Post (PStr ''http://q/1'')
            \<lparr>fp_email = ''24f1001827@ds.study.iitm.ac.in'', fp_secret = ''s3cret'',
             fp_url = PStr ''http://q/1'', fp_answer = ''FAILED''\<rparr>]
   \<and> fst (solve_single_quiz flat_runtime sample_settings sample_handler (PStr ''http://q/1'') 180 0
          (one_question_world [] [Some ''print(1)''] [(Returned, ''hello'')]
             [Some (Inr (PDict [(PStr ''url'', PStr ''http://q/2'')]))]))
       = Inr \<lparr>status = Error, next_url = PNone\<rparr>
   \<and> fallback_outcome (Some (Inr (PList [PStr ''http://q/2'']))) = \<lparr>status = Error, next_url = PNone\<rparr>"
proof -
  let ?url = "PStr ''http://q/1''"
  let ?post = "[Some (Inr (PDict [(PStr ''url'', PStr ''http://q/2'')]))]"
  let ?w = "one_question_world [] [Some ''print(1)''] [(Returned, [])] ?post"
  let ?v = "one_question_world [] [Some ''print(1)''] [(Returned, ''hello'')] ?post"
  let ?qd = "\<lparr>question_text = ''What is 1 + 1?'', raw_html = ''<p>What is 1 + 1?</p>'', url = ?url\<rparr>"
  let ?w1 = "snd (visit_quiz_page ?url ?w)"
  let ?w2 = "snd (obtain_solution sample_settings sample_handler ?qd ?url 0 ?w1)"
  let ?v1 = "snd (visit_quiz_page ?url ?v)"
  let ?v2 = "snd (obtain_solution sample_settings sample_handler ?qd ?url 0 ?v1)"
  note defs = obtain_solution_def generate_solution_def visit_quiz_page_def build_prompt_def
        one_question_world_def scripted_world_def script_def sample_settings_def
  have h1: "visit_quiz_page ?url ?w = (Some ?qd, ?w1)"
    by (simp add: defs)
  have h2: "obtain_solution sample_settings sample_handler ?qd ?url 0 ?w1 = (Inr ''print(1)'', ?w2)"
    by (simp add: defs)
  have h3: "runs ?w2 (n_runs ?w2) = (Returned, [])"
    by (simp add: defs)
  have p: "posts ?w2 (n_posts ?w2) = Some (Inr (PDict [(PStr ''url'', PStr ''http://q/2'')]))"
    by (simp add: defs)
  have e: "events ?w2 = [Visit ?url,
          LLMCall ''24f1001827@ds.study.iitm.ac.in'' ''s3cret''
            (SolvePrompt ''What is 1 + 1?'' ?url ''24f1001827@ds.study.iitm.ac.in'' ''s3cret'' None)]"
    by (simp add: defs)
  have k1: "visit_quiz_page ?url ?v = (Some ?qd, ?v1)"
    by (simp add: defs)
  have k2: "obtain_solution sample_settings sample_handler ?qd ?url 0 ?v1 = (Inr ''print(1)'', ?v2)"
    by (simp add: defs)
  have k3: "runs ?v2 (n_runs ?v2) = (Returned, ''hello'')"
    by (simp add: defs)
  have q: "parse_submission_result flat_runtime ''hello'' = empty_verdict"
    by code_simp
  have k4: "''hello'' \<noteq> [] \<and> indeterminate (dict_get (parse_submission_result flat_runtime ''hello'') ''correct'')"
    unfolding q by (simp add: indeterminate_def dict_get_def empty_verdict_def)
  have k5: "\<forall>kvs. PList [PStr ''http://q/2''] \<noteq> PDict kvs"
    by simp
  have A: "fst (solve_single_quiz flat_runtime sample_settings sample_handler ?url 180 0 ?w)
       = Inr \<lparr>status = Incorrect, next_url = PStr ''http://q/2''\<rparr>
     \<and> events (snd (solve_single_quiz flat_runtime sample_settings sample_handler ?url 180 0 ?w))
       = events ?w2 @ [Exec ''print(1)'' (STUDENT_EMAIL sample_settings) (STUDENT_SECRET sample_settings) ?url,
                       Post ?url (failed_payload sample_settings ?url)]"
    using no_verdict_fallback [OF h1 h2 h3, of flat_runtime 180] p
    by (simp add: fallback_outcome_def)
  have B: "fst (solve_single_quiz flat_runtime sample_settings sample_handler ?url 180 0 ?v) = Inr error_outcome
      \<and> fallback_outcome (Some (Inr (PList [PStr ''http://q/2'']))) = error_outcome"
    using no_verdict_fallback [OF k1 k2 k3, of flat_runtime 180 _ _ "PList [PStr ''http://q/2'']"] k4 k5
    by blast
  show ?thesis
    using A B unfolding e
    by (simp add: failed_payload_def sample_settings_def error_outcome_def)
qed

text \<open>
  Claim C1, as stated, fails on printed text in which the parser finds nothing: the
  verdict has its four keys, so it is truthy, and the question ends in the error
  outcome with no POST among the events.
\<close>

theorem unparseable_output_counterexample:
  "parse_submission_result flat_runtime ''hello'' = empty_verdict
   \<and> fst (solve_single_quiz flat_runtime sample_settings sample_handler (PStr ''http://q/1'') 180 0
          (one_question_world [] [Some ''print(1)''] [(Returned, ''hello'')] []))
       = Inr \<lparr>status = Error, next_url = PNone\<rparr>
   \<and> events (snd (solve_single_quiz flat_runtime sample_settings sample_handler (PStr ''http://q/1'') 180 0
          (one_question_world [] [Some ''print(1)''] [(Returned, ''hello'')] [])))
       = [Visit (PStr ''http://q/1''),
          LLMCall ''24f1001827@ds.study.iitm.ac.in'' ''s3cret''
            (SolvePrompt ''What is 1 + 1?'' (PStr ''http://q/1'') ''24f1001827@ds.study.iitm.ac.in'' ''s3cret'' None),
          Exec ''print(1)'' ''24f1001827@ds.study.iitm.ac.in'' ''s3cret'' (PStr ''http://q/1'')]"
  by code_simp

subsection \<open>When the execution raises\<close>






subsection \<open>After an explicit \<open>correct = False\<close>\<close>

lemma solve_after_success:
  assumes "visit_quiz_page quiz_url w = (Some qd, w1)"
    and "obtain_solution st self qd quiz_url start_time w1 = (Inr code, w2)"
    and "runs w2 (n_runs w2) = (Returned, out)"
    and "out \<noteq> []"
  shows "solve_single_quiz rt st self quiz_url time_remaining start_time w
     = judge_submission rt st self qd quiz_url code start_time
         \<lparr>success = True, output_text = Some out, error = None,
          submission_result = Some (parse_submission_result rt out)\<rparr>
         (w2\<lparr>n_runs := Suc (n_runs w2),
            events := events w2 @ [Exec code (STUDENT_EMAIL st) (STUDENT_SECRET st) quiz_url]\<rparr>)"
  using solve_reaches_execution [OF assms(1,2), of rt time_remaining]
    execute_solution_success [OF assms(3), of rt st self qd quiz_url code start_time] assms(4)
  by simp

lemma judge_false:
  assumes "sub \<noteq> []" and "dict_get sub ''correct'' = PBool False"
  shows "judge_submission rt st self qd quiz_url code start_time
           \<lparr>success = True, output_text = prev, error = None, submission_result = Some sub\<rparr> w
     = (if real_of_int (QUIZ_TIMEOUT_SECONDS st) - (clock w (n_clock w) - start_time)
              > real_of_int (SKIP_THRESHOLD_SECONDS st * 2)
        then (let rr = retry_with_feedback rt st self qd quiz_url
                         (dict_get_default sub ''reason'' (PStr ''No reason provided'')) code prev
                         start_time (w\<lparr>n_clock := Suc (n_clock w)\<rparr>)
              in (case fst rr of
                    Inl escaped \<Rightarrow> Inl escaped
                  | Inr retry_result \<Rightarrow>
                      Inr (if \<not> truthy (next_url retry_result) \<and> truthy (dict_get sub ''next_url'')
                           then retry_result\<lparr>next_url := dict_get sub ''next_url''\<rparr>
                           else retry_result),
                  snd rr))
        else if truthy (dict_get sub ''next_url'')
        then (Inr \<lparr>status = Skipped, next_url = dict_get sub ''next_url''\<rparr>,
              w\<lparr>n_clock := Suc (n_clock w)\<rparr>)
        else (Inr \<lparr>status = Incorrect, next_url = PNone\<rparr>, w\<lparr>n_clock := Suc (n_clock w)\<rparr>))"
  using assms
  by (simp add: judge_submission_def remaining_time_eq Let_def split_beta split: sum.splits)



text \<open>
  Claim C7. In the same situation but with more than twice the skip threshold remaining,
  the feedback retry runs and its result is returned: with the retry's own \<open>next_url\<close>
  when it has one, with the \<open>next_url\<close> of the original verdict when the retry has none
  and the original verdict has one, and unchanged otherwise. The status is the retry's.
  (When the retry's execution raises outside \<^verbatim>\<open>Exception\<close> there is no result to return:
  the exception goes on.)
\<close>

theorem feedback_retry_next_url:
  assumes "visit_quiz_page quiz_url w = (Some qd, w1)"
    and "obtain_solution st self qd quiz_url start_time w1 = (Inr code, w2)"
    and "runs w2 (n_runs w2) = (Returned, out)"
    and "out \<noteq> []"
    and "dict_get (parse_submission_result rt out) ''correct'' = PBool False"
    and "real_of_int (QUIZ_TIMEOUT_SECONDS st) - (clock w2 (n_clock w2) - start_time)
            > real_of_int (SKIP_THRESHOLD_SECONDS st * 2)"
    and "retry_with_feedback rt st self qd quiz_url
           (dict_get_default (parse_submission_result rt out) ''reason'' (PStr ''No reason provided''))
           code (Some out) start_time
           (w2\<lparr>n_runs := Suc (n_runs w2),
               events := events w2 @ [Exec code (STUDENT_EMAIL st) (STUDENT_SECRET st) quiz_url],
               n_clock := Suc (n_clock w2)\<rparr>)
         = (retried, w')"
  shows "(\<forall>retry_result. retried = Inr retry_result \<longrightarrow>
            fst (solve_single_quiz rt st self quiz_url time_remaining start_time w)
              = Inr \<lparr>status = status retry_result,
                     next_url =
                       (if truthy (next_url retry_result) then next_url retry_result
                        else if truthy (dict_get (parse_submission_result rt out) ''next_url'')
                        then dict_get (parse_submission_result rt out) ''next_url''
                        else next_url retry_result)\<rparr>)
       \<and> (\<forall>escaped. retried = Inl escaped \<longrightarrow>
            fst (solve_single_quiz rt st self quiz_url time_remaining start_time w) = Inl escaped)
       \<and> snd (solve_single_quiz rt st self quiz_url time_remaining start_time w) = w'"
  unfolding solve_after_success [OF assms(1-4)]
  using assms(6,7)
  by (auto simp: judge_false [OF parse_nonempty assms(5)] Let_def)

theorem feedback_retry_next_url_witness:
  \<open>fst (solve_single_quiz flat_runtime sample_settings sample_handler (PStr ''http://q/1'') 180 0
          (one_question_world [80, 81] [Some ''print(1)'', Some ''print(2)'']
             [(Returned, ''Response: {"correct": false, "url": "http://q/2"}''),
              (Returned, ''Response: {"correct": false}'')] []))
       = Inr \<lparr>status = Incorrect, next_url = PStr ''http://q/2''\<rparr>\<close>
proof -
  let ?url = "PStr ''http://q/1''"
  let ?out = \<open>''Response: {"correct": false, "url": "http://q/2"}''\<close>
  let ?w = \<open>one_question_world [80, 81] [Some ''print(1)'', Some ''print(2)'']
             [(Returned, ?out), (Returned, ''Response: {"correct": false}'')] []\<close>
  let ?qd = "\<lparr>question_text = ''What is 1 + 1?'', raw_html = ''<p>What is 1 + 1?</p>'', url = ?url\<rparr>"
  let ?w1 = "snd (visit_quiz_page ?url ?w)"
  let ?w2 = "snd (obtain_solution sample_settings sample_handler ?qd ?url 0 ?w1)"
  let ?rr = "retry_with_feedback flat_runtime sample_settings sample_handler ?qd ?url
           (dict_get_default (parse_submission_result flat_runtime ?out) ''reason'' (PStr ''No reason provided''))
           ''print(1)'' (Some ?out) 0
           (?w2\<lparr>n_runs := Suc (n_runs ?w2),
               events := events ?w2 @ [Exec ''print(1)'' (STUDENT_EMAIL sample_settings)
                                         (STUDENT_SECRET sample_settings) ?url],
               n_clock := Suc (n_clock ?w2)\<rparr>)"
  note defs = obtain_solution_def generate_solution_def visit_quiz_page_def build_prompt_def
        one_question_world_def scripted_world_def script_def sample_settings_def
  have h1: "visit_quiz_page ?url ?w = (Some ?qd, ?w1)"
    by (simp add: defs)
  have h2: "obtain_solution sample_settings sample_handler ?qd ?url 0 ?w1 = (Inr ''print(1)'', ?w2)"
    by (simp add: defs)
  have h3: "runs ?w2 (n_runs ?w2) = (Returned, ?out)"
    by (simp add: defs)
  have h4: "?out \<noteq> []"
    by simp
  have p: "parse_submission_result flat_runtime ?out
      = [(''correct'', PBool False), (''next_url'', PStr ''http://q/2''), (''reason'', PNone),
         (''status_code'', PNone)]"
    by code_simp
  have h5: "dict_get (parse_submission_result flat_runtime ?out) ''correct'' = PBool False"
    unfolding p by (simp add: dict_get_def)
  have h6: "real_of_int (QUIZ_TIMEOUT_SECONDS sample_settings) - (clock ?w2 (n_clock ?w2) - 0)
            > real_of_int (SKIP_THRESHOLD_SECONDS sample_settings * 2)"
    by (simp add: defs)
  have h7: "?rr = (fst ?rr, snd ?rr)"
    by simp
  have r: "fst ?rr = Inr \<lparr>status = Incorrect, next_url = PNone\<rparr>"
    by code_simp
  show ?thesis
    using feedback_retry_next_url [OF h1 h2 h3 h4 h5 h6 h7, of 180]
    unfolding r unfolding p by (simp add: dict_get_def)
qed

subsection \<open>The retry helpers\<close>







subsection \<open>How the controller reads \<open>correct\<close>\<close>

lemma take_fields_correct:
  "take_fields data sub = Inr sub' \<Longrightarrow> py_get data ''correct'' = Inr (dict_get sub' ''correct'')"
  by (auto simp: take_fields_def dict_get_dict_set split: sum.splits)

lemma judge_truthy:
  assumes "sub \<noteq> []" and "truthy (dict_get sub ''correct'')"
  shows "judge_submission rt st self qd quiz_url code start_time
           \<lparr>success = True, output_text = prev, error = None, submission_result = Some sub\<rparr> w
     = (Inr \<lparr>status = Correct, next_url = dict_get sub ''next_url''\<rparr>, w)"
  using assms by (simp add: judge_submission_def)

lemma judge_indeterminate:
  assumes "sub \<noteq> []" and "indeterminate (dict_get sub ''correct'')"
  shows "judge_submission rt st self qd quiz_url code start_time
           \<lparr>success = True, output_text = prev, error = None, submission_result = Some sub\<rparr> w
     = (Inr error_outcome, w)"
  using assms by (simp add: judge_submission_def indeterminate_def)

lemma parsed_correct_of_body:
  assumes "snd (parse_status rt output empty_verdict) = None"
    and "rx_search True response_re output = Some (Some blob, rest)"
    and "decode_response rt blob = Inr (PDict kvs)" and "kvs \<noteq> []"
    and "dict_entry kvs ''correct'' \<noteq> PNone"
  shows "dict_get (parse_submission_result rt output) ''correct'' = dict_entry kvs ''correct''"
proof -
  obtain s1 where s1: "parse_status rt output empty_verdict = (s1, None)"
    using assms(1) by (cases "parse_status rt output empty_verdict") simp
  obtain s2 e2 where s2: "parse_response rt output s1 = (s2, e2)"
    by (cases "parse_response rt output s1") simp
  have c: "dict_get s2 ''correct'' = dict_entry kvs ''correct''"
    using response_body_correct [OF assms(2-4), of s1] s2 by simp
  show ?thesis
    using s1 s2 c assms(5)
    by (cases e2) (simp_all add: parse_submission_result_def scavenge_keeps_correct)
qed

text \<open>
  Claim C9. For a question whose execution succeeds with printed text, the controller
  decides on the parsed value \<open>v\<close> of \<open>correct\<close> by truthiness and identity: a truthy \<open>v\<close>
  (the string \<open>false\<close> and the number 1 are truthy) gives status correct with the
  verdict's \<open>next_url\<close>; an indeterminate \<open>v\<close> (\<open>None\<close>, 0, the empty string: falsy and not
  \<open>False\<close>) gives the error outcome; only \<open>v = False\<close> enters the branch of feedback retry,
  skip and incorrect. The three cases cover every value. The parser passes the value
  through: when the status step ends without exception and the response body of the
  printed text decodes to a non-empty dict whose \<open>correct\<close> entry is not \<open>None\<close>, \<open>v\<close> is
  that entry, whatever its type; and wherever the three fields are taken from a
  decoded object, the stored \<open>correct\<close> is what \<^verbatim>\<open>.get('correct')\<close> returned.
\<close>

theorem classification_by_truthiness:
  assumes "visit_quiz_page quiz_url w = (Some qd, w1)"
    and "obtain_solution st self qd quiz_url start_time w1 = (Inr code, w2)"
    and "runs w2 (n_runs w2) = (Returned, out)"
    and "out \<noteq> []"
    and "v = dict_get (parse_submission_result rt out) ''correct''"
    and "w3 = w2\<lparr>n_runs := Suc (n_runs w2),
                 events := events w2 @ [Exec code (STUDENT_EMAIL st) (STUDENT_SECRET st) quiz_url]\<rparr>"
  shows "(truthy v \<longrightarrow>
            solve_single_quiz rt st self quiz_url time_remaining start_time w
              = (Inr \<lparr>status = Correct,
                      next_url = dict_get (parse_submission_result rt out) ''next_url''\<rparr>, w3))
       \<and> (indeterminate v \<longrightarrow>
            solve_single_quiz rt st self quiz_url time_remaining start_time w
              = (Inr \<lparr>status = Error, next_url = PNone\<rparr>, w3))
       \<and> (v = PBool False \<longrightarrow>
            solve_single_quiz rt st self quiz_url time_remaining start_time w
              = (if real_of_int (QUIZ_TIMEOUT_SECONDS st) - (clock w2 (n_clock w2) - start_time)
                      > real_of_int (SKIP_THRESHOLD_SECONDS st * 2)
                 then (let rr = retry_with_feedback rt st self qd quiz_url
                                  (dict_get_default (parse_submission_result rt out) ''reason''
                                     (PStr ''No reason provided''))
                                  code (Some out) start_time (w3\<lparr>n_clock := Suc (n_clock w2)\<rparr>)
                       in (case fst rr of
                             Inl escaped \<Rightarrow> Inl escaped
                           | Inr retry_result \<Rightarrow>
                               Inr (if \<not> truthy (next_url retry_result)
                                       \<and> truthy (dict_get (parse_submission_result rt out) ''next_url'')
                                    then retry_result\<lparr>next_url :=
                                           dict_get (parse_submission_result rt out) ''next_url''\<rparr>
                                    else retry_result),
                           snd rr))
                 else if truthy (dict_get (parse_submission_result rt out) ''next_url'')
                 then (Inr \<lparr>status = Skipped,
                            next_url = dict_get (parse_submission_result rt out) ''next_url''\<rparr>,
                       w3\<lparr>n_clock := Suc (n_clock w2)\<rparr>)
                 else (Inr \<lparr>status = Incorrect, next_url = PNone\<rparr>,
                       w3\<lparr>n_clock := Suc (n_clock w2)\<rparr>)))
       \<and> (truthy v \<or> indeterminate v \<or> v = PBool False)
       \<and> (truthy (PStr ''false'') \<and> truthy (PInt 1) \<and> indeterminate PNone \<and> indeterminate (PInt 0)
            \<and> indeterminate (PStr []))
       \<and> (snd (parse_status rt out empty_verdict) = None
            \<and> rx_search True response_re out = Some (Some blob, rest)
            \<and> decode_response rt blob = Inr (PDict kvs) \<and> kvs \<noteq> []
            \<and> dict_entry kvs ''correct'' \<noteq> PNone
          \<longrightarrow> v = dict_entry kvs ''correct'')
       \<and> (take_fields data sub = Inr sub' \<longrightarrow> py_get data ''correct'' = Inr (dict_get sub' ''correct''))"
proof -
  note solve = solve_after_success [OF assms(1-4), of rt time_remaining]
  have t: "truthy v \<Longrightarrow> solve_single_quiz rt st self quiz_url time_remaining start_time w
              = (Inr \<lparr>status = Correct,
                      next_url = dict_get (parse_submission_result rt out) ''next_url''\<rparr>, w3)"
    unfolding solve assms(5,6) by (simp add: judge_truthy parse_nonempty)
  have i: "indeterminate v \<Longrightarrow> solve_single_quiz rt st self quiz_url time_remaining start_time w
              = (Inr \<lparr>status = Error, next_url = PNone\<rparr>, w3)"
    unfolding solve assms(5,6) by (simp add: judge_indeterminate parse_nonempty error_outcome_def)
  have f: "v = PBool False \<Longrightarrow> solve_single_quiz rt st self quiz_url time_remaining start_time w
              = (if real_of_int (QUIZ_TIMEOUT_SECONDS st) - (clock w2 (n_clock w2) - start_time)
                      > real_of_int (SKIP_THRESHOLD_SECONDS st * 2)
                 then (let rr = retry_with_feedback rt st self qd quiz_url
                                  (dict_get_default (parse_submission_result rt out) ''reason''
                                     (PStr ''No reason provided''))
                                  code (Some out) start_time (w3\<lparr>n_clock := Suc (n_clock w2)\<rparr>)
                       in (case fst rr of
                             Inl escaped \<Rightarrow> Inl escaped
                           | Inr retry_result \<Rightarrow>
                               Inr (if \<not> truthy (next_url retry_result)
                                       \<and> truthy (dict_get (parse_submission_result rt out) ''next_url'')
                                    then retry_result\<lparr>next_url :=
                                           dict_get (parse_submission_result rt out) ''next_url''\<rparr>
                                    else retry_result),
                           snd rr))
                 else if truthy (dict_get (parse_submission_result rt out) ''next_url'')
                 then (Inr \<lparr>status = Skipped,
                            next_url = dict_get (parse_submission_result rt out) ''next_url''\<rparr>,
                       w3\<lparr>n_clock := Suc (n_clock w2)\<rparr>)
                 else (Inr \<lparr>status = Incorrect, next_url = PNone\<rparr>,
                       w3\<lparr>n_clock := Suc (n_clock w2)\<rparr>))"
    unfolding solve assms(5,6) by (simp add: judge_false parse_nonempty)
  have c: "truthy v \<or> indeterminate v \<or> v = PBool False"
    by (auto simp: indeterminate_def)
  have e: "truthy (PStr ''false'') \<and> truthy (PInt 1) \<and> indeterminate PNone \<and> indeterminate (PInt 0)
            \<and> indeterminate (PStr [])"
    by (simp add: indeterminate_def)
  have p: "snd (parse_status rt out empty_verdict) = None
            \<and> rx_search True response_re out = Some (Some blob, rest)
            \<and> decode_response rt blob = Inr (PDict kvs) \<and> kvs \<noteq> []
            \<and> dict_entry kvs ''correct'' \<noteq> PNone
          \<longrightarrow> v = dict_entry kvs ''correct''"
    unfolding assms(5) using parsed_correct_of_body [of rt out blob rest kvs] by blast
  show ?thesis
    using t i f c e p take_fields_correct [of data sub sub'] by blast
qed

theorem classification_by_truthiness_witness:
  \<open>fst (solve_single_quiz flat_runtime sample_settings sample_handler (PStr ''http://q/1'') 180 0
          (one_question_world [] [Some ''print(1)''] [(Returned, ''Response: {"correct": "false"}'')] []))
       = Inr \<lparr>status = Correct, next_url = PNone\<rparr>
   \<and> fst (solve_single_quiz flat_runtime sample_settings sample_handler (PStr ''http://q/1'') 180 0
          (one_question_world [] [Some ''print(1)'']
             [(Returned, ''Response: {"correct": 0, "url": "http://q/2"}'')] []))
       = Inr \<lparr>status = Error, next_url = PNone\<rparr>
   \<and> dict_get (parse_submission_result flat_runtime ''Response: {"correct": "false"}'') ''correct''
       = PStr ''false''
   \<and> dict_get (parse_submission_result flat_runtime ''Response: {"correct": 0, "url": "http://q/2"}'')
         ''correct'' = PInt 0
   \<and> fst (solve_single_quiz flat_runtime sample_settings sample_handler (PStr ''http://q/1'') 180 0
          (one_question_world [175] [Some ''print(1)'']
             [(Returned, ''Response: {"correct": false, "url": "http://q/2"}'')] []))
       = Inr \<lparr>status = Skipped, next_url = PStr ''http://q/2''\<rparr>
   \<and> take_fields (PDict [(PStr ''correct'', PStr ''false'')]) empty_verdict
       = Inr [(''correct'', PStr ''false''), (''next_url'', PNone), (''reason'', PNone),
              (''status_code'', PNone)]
   \<and> py_get (PDict [(PStr ''correct'', PStr ''false'')]) ''correct'' = Inr (PStr ''false'')\<close>
proof -
  let ?url = "PStr ''http://q/1''"
  let ?outA = \<open>''Response: {"correct": "false"}''\<close>
  let ?outB = \<open>''Response: {"correct": 0, "url": "http://q/2"}''\<close>
  let ?wA = "one_question_world [] [Some ''print(1)''] [(Returned, ?outA)] []"
  let ?wB = "one_question_world [] [Some ''print(1)''] [(Returned, ?outB)] []"
  let ?qd = "\<lparr>question_text = ''What is 1 + 1?'', raw_html = ''<p>What is 1 + 1?</p>'', url = ?url\<rparr>"
  let ?wA1 = "snd (visit_quiz_page ?url ?wA)"
  let ?wA2 = "snd (obtain_solution sample_settings sample_handler ?qd ?url 0 ?wA1)"
  let ?wB1 = "snd (visit_quiz_page ?url ?wB)"
  let ?wB2 = "snd (obtain_solution sample_settings sample_handler ?qd ?url 0 ?wB1)"
  note defs = obtain_solution_def generate_solution_def visit_quiz_page_def build_prompt_def
        one_question_world_def scripted_world_def script_def sample_settings_def
  have a1: "visit_quiz_page ?url ?wA = (Some ?qd, ?wA1)"
    by (simp add: defs)
  have a2: "obtain_solution sample_settings sample_handler ?qd ?url 0 ?wA1 = (Inr ''print(1)'', ?wA2)"
    by (simp add: defs)
  have a3: "runs ?wA2 (n_runs ?wA2) = (Returned, ?outA)"
    by (simp add: defs)
  have a4: "?outA \<noteq> []"
    by simp
  have pa: "parse_submission_result flat_runtime ?outA
      = [(''correct'', PStr ''false''), (''next_url'', PNone), (''reason'', PNone),
         (''status_code'', PNone)]"
    by code_simp
  have b1: "visit_quiz_page ?url ?wB = (Some ?qd, ?wB1)"
    by (simp add: defs)
  have b2: "obtain_solution sample_settings sample_handler ?qd ?url 0 ?wB1 = (Inr ''print(1)'', ?wB2)"
    by (simp add: defs)
  have b3: "runs ?wB2 (n_runs ?wB2) = (Returned, ?outB)"
    by (simp add: defs)
  have b4: "?outB \<noteq> []"
    by simp
  have pb: "parse_submission_result flat_runtime ?outB
      = [(''correct'', PInt 0), (''next_url'', PStr ''http://q/2''), (''reason'', PNone),
         (''status_code'', PNone)]"
    by code_simp
  let ?outC = \<open>''Response: {"correct": false, "url": "http://q/2"}''\<close>
  let ?wC = "one_question_world [175] [Some ''print(1)''] [(Returned, ?outC)] []"
  let ?wC1 = "snd (visit_quiz_page ?url ?wC)"
  let ?wC2 = "snd (obtain_solution sample_settings sample_handler ?qd ?url 0 ?wC1)"
  have c1: "visit_quiz_page ?url ?wC = (Some ?qd, ?wC1)"
    by (simp add: defs)
  have c2: "obtain_solution sample_settings sample_handler ?qd ?url 0 ?wC1 = (Inr ''print(1)'', ?wC2)"
    by (simp add: defs)
  have c3: "runs ?wC2 (n_runs ?wC2) = (Returned, ?outC)"
    by (simp add: defs)
  have c4: "?outC \<noteq> []"
    by simp
  have pc: "parse_submission_result flat_runtime ?outC
      = [(''correct'', PBool False), (''next_url'', PStr ''http://q/2''), (''reason'', PNone),
         (''status_code'', PNone)]"
    by code_simp
  have c5: "\<not> real_of_int (QUIZ_TIMEOUT_SECONDS sample_settings) - (clock ?wC2 (n_clock ?wC2) - 0)
            > real_of_int (SKIP_THRESHOLD_SECONDS sample_settings * 2)"
    by (simp add: defs)
  have t: "take_fields (PDict [(PStr ''correct'', PStr ''false'')]) empty_verdict
       = Inr [(''correct'', PStr ''false''), (''next_url'', PNone), (''reason'', PNone),
              (''status_code'', PNone)]"
    by code_simp
  let ?blob = \<open>''{"correct": "false"}''\<close>
  let ?kvs = "[(PStr ''correct'', PStr ''false'')]"
  have q1: "snd (parse_status flat_runtime ?outA empty_verdict) = None"
    by code_simp
  have q2: "rx_search True response_re ?outA = Some (Some ?blob, [])"
    by code_simp
  have q3: "decode_response flat_runtime ?blob = Inr (PDict ?kvs)"
    by code_simp
  have q4: "?kvs \<noteq> [] \<and> dict_entry ?kvs ''correct'' \<noteq> PNone
      \<and> dict_entry ?kvs ''correct'' = PStr ''false''"
    by (simp add: dict_entry_def)
  have P: "dict_get (parse_submission_result flat_runtime ?outA) ''correct'' = PStr ''false''"
    using classification_by_truthiness [OF a1 a2 a3 a4 refl refl, where rt = flat_runtime
        and blob = ?blob and rest = "[]" and kvs = ?kvs] q1 q2 q3 q4
    by simp
  have A: "fst (solve_single_quiz flat_runtime sample_settings sample_handler ?url 180 0 ?wA)
       = Inr \<lparr>status = Correct, next_url = PNone\<rparr>"
    using classification_by_truthiness [OF a1 a2 a3 a4 refl refl, of flat_runtime 180] P
    unfolding pa by (simp add: dict_get_def)
  have B: "fst (solve_single_quiz flat_runtime sample_settings sample_handler ?url 180 0 ?wB)
       = Inr \<lparr>status = Error, next_url = PNone\<rparr>"
    using classification_by_truthiness [OF b1 b2 b3 b4 refl refl, of flat_runtime 180]
    unfolding pb by (simp add: dict_get_def indeterminate_def)
  have C: "fst (solve_single_quiz flat_runtime sample_settings sample_handler ?url 180 0 ?wC)
       = Inr \<lparr>status = Skipped, next_url = PStr ''http://q/2''\<rparr>
     \<and> py_get (PDict [(PStr ''correct'', PStr ''false'')]) ''correct'' = Inr (PStr ''false'')"
    using classification_by_truthiness [OF c1 c2 c3 c4 refl refl, where rt = flat_runtime
        and time_remaining = 180 and data = "PDict [(PStr ''correct'', PStr ''false'')]"
        and sub = empty_verdict
        and sub' = "[(''correct'', PStr ''false''), (''next_url'', PNone), (''reason'', PNone),
              (''status_code'', PNone)]"] c5 t
    unfolding pc by (simp add: dict_get_def)
  show ?thesis
    using A B C P t unfolding pb
    by (simp add: dict_get_def)
qed

section \<open>The credentials of the request\<close>

lemma fallback_submit_self: "fallback_submit st self quiz_url w = fallback_submit st self' quiz_url w"
  by (simp add: fallback_submit_def submit_fallback_def)

lemma retry_with_fix_self:
  "retry_with_fix rt st self qd quiz_url code err start_time w
     = retry_with_fix rt st self' qd quiz_url code err start_time w"
  by (simp add: retry_with_fix_def)

lemma retry_with_feedback_self:
  "retry_with_feedback rt st self qd quiz_url reason code prev start_time w
     = retry_with_feedback rt st self' qd quiz_url reason code prev start_time w"
  by (simp add: retry_with_feedback_def)

lemma obtain_solution_self:
  "obtain_solution st self qd quiz_url start_time w = obtain_solution st self' qd quiz_url start_time w"
  unfolding obtain_solution_def fallback_submit_self [of st self _ _ self'] by (rule refl)

lemma judge_submission_self:
  "judge_submission rt st self qd quiz_url code start_time res w
     = judge_submission rt st self' qd quiz_url code start_time res w"
  unfolding judge_submission_def fallback_submit_self [of st self _ _ self']
    retry_with_feedback_self [of rt st self _ _ _ _ _ _ _ self']
  by (rule refl)

lemma execute_solution_self:
  "execute_solution rt st self qd quiz_url code start_time w
     = execute_solution rt st self' qd quiz_url code start_time w"
  unfolding execute_solution_def fallback_submit_self [of st self _ _ self']
    retry_with_fix_self [of rt st self _ _ _ _ _ _ self']
    judge_submission_self [of rt st self _ _ _ _ _ _ self']
  by (rule refl)

lemma solve_single_quiz_self:
  "solve_single_quiz rt st self quiz_url time_remaining start_time w
     = solve_single_quiz rt st self' quiz_url time_remaining start_time w"
  unfolding solve_single_quiz_def obtain_solution_self [of st self _ _ _ _ self']
    execute_solution_self [of rt st self _ _ _ _ _ self']
  by (rule refl)

lemma sequence_loop_self:
  "sequence_loop fuel rt st self t0 current_url s w = sequence_loop fuel rt st self' t0 current_url s w"
proof (induction fuel arbitrary: current_url s w)
  case 0
  show ?case by simp
next
  case (Suc fuel)
  show ?case
    unfolding sequence_loop.simps solve_single_quiz_self [of rt st self _ _ _ _ self']
      Suc.IH
    by (rule refl)
qed

lemma solve_quiz_sequence_self:
  "solve_quiz_sequence fuel rt st self initial_url t0 w
     = solve_quiz_sequence fuel rt st self' initial_url t0 w"
  unfolding solve_quiz_sequence_def sequence_loop_self [of fuel rt st self _ _ _ _ self']
  by (rule refl)

text \<open>
  Claim C10. The handler's \<open>email\<close> and \<open>secret\<close> (the values of the webhook request) have
  no influence on a question or a chain: with the same settings and the same world,
  two handlers give the same outcomes, counters and world, hence the same events; and
  two requests that pass authentication and name the same URL leave the same world
  behind, whatever their \<open>email\<close>. The fallback POST, the environment of an execution
  and the prompt carry the credentials of the settings.
\<close>

theorem request_credentials_unused:
  "(req_secret r1 = STUDENT_SECRET st \<and> req_secret r2 = STUDENT_SECRET st \<and> req_url r1 = req_url r2
      \<longrightarrow> snd (handle_quiz fuel rt st r1 w) = snd (handle_quiz fuel rt st r2 w))
   \<and> solve_quiz_sequence fuel rt st self initial_url t0 w
       = solve_quiz_sequence fuel rt st self' initial_url t0 w
   \<and> solve_single_quiz rt st self quiz_url time_remaining start_time w
       = solve_single_quiz rt st self' quiz_url time_remaining start_time w
   \<and> events (snd (submit_fallback st self quiz_url w))
       = events w @ [Post quiz_url \<lparr>fp_email = STUDENT_EMAIL st, fp_secret = STUDENT_SECRET st,
                                     fp_url = quiz_url, fp_answer = ''FAILED''\<rparr>]
   \<and> events (snd (execute_code rt st (Some c) quiz_url w))
       = events w @ [Exec c (STUDENT_EMAIL st) (STUDENT_SECRET st) quiz_url]
   \<and> events (snd (generate_solution st qd previous_error failed_code previous_output w))
       = events w @ [LLMCall (STUDENT_EMAIL st) (STUDENT_SECRET st)
                       (SolvePrompt (question_text qd) (url qd) (STUDENT_EMAIL st) (STUDENT_SECRET st)
                          (if truthy previous_error
                           then Some (previous_error, failed_code, previous_output) else None))]"
proof (intro conjI impI)
  assume "req_secret r1 = STUDENT_SECRET st \<and> req_secret r2 = STUDENT_SECRET st \<and> req_url r1 = req_url r2"
  then show "snd (handle_quiz fuel rt st r1 w) = snd (handle_quiz fuel rt st r2 w)"
    by (simp add: handle_quiz_def solve_quiz_async_def split_beta
        solve_quiz_sequence_self [of fuel rt st "\<lparr>email = req_email r1, secret = STUDENT_SECRET st\<rparr>" _ _ _
          "\<lparr>email = req_email r2, secret = STUDENT_SECRET st\<rparr>"])
next
  show "solve_quiz_sequence fuel rt st self initial_url t0 w
       = solve_quiz_sequence fuel rt st self' initial_url t0 w"
    by (rule solve_quiz_sequence_self)
next
  show "solve_single_quiz rt st self quiz_url time_remaining start_time w
       = solve_single_quiz rt st self' quiz_url time_remaining start_time w"
    by (rule solve_single_quiz_self)
qed (simp_all add: submit_fallback_def execute_code_Some generate_solution_def build_prompt_def)

theorem request_credentials_unused_witness:
  \<open>snd (handle_quiz 3 flat_runtime sample_settings
          \<lparr>req_email = ''someone@example.org'', req_secret = ''s3cret'', req_url = ''http://q/1''\<rparr>
          (scripted_world [] [Some (''Q1'', ''<p>Q1</p>''), Some (''Q2'', ''<p>Q2</p>'')]
             [Some ''print(1)'', Some ''print(2)'']
             [(Returned, ''Response: {"correct": true, "url": "http://q/2"}''), (Returned, [])]
             [Some (Inr (PDict []))]))
     = snd (handle_quiz 3 flat_runtime sample_settings
          \<lparr>req_email = ''24f1001827@ds.study.iitm.ac.in'', req_secret = ''s3cret'', req_url = ''http://q/1''\<rparr>
          (scripted_world [] [Some (''Q1'', ''<p>Q1</p>''), Some (''Q2'', ''<p>Q2</p>'')]
             [Some ''print(1)'', Some ''print(2)'']
             [(Returned, ''Response: {"correct": true, "url": "http://q/2"}''), (Returned, [])]
             [Some (Inr (PDict []))]))
   \<and> events (snd (handle_quiz 3 flat_runtime sample_settings
          \<lparr>req_email = ''someone@example.org'', req_secret = ''s3cret'', req_url = ''http://q/1''\<rparr>
          (scripted_world [] [Some (''Q1'', ''<p>Q1</p>''), Some (''Q2'', ''<p>Q2</p>'')]
             [Some ''print(1)'', Some ''print(2)'']
             [(Returned, ''Response: {"correct": true, "url": "http://q/2"}''), (Returned, [])]
             [Some (Inr (PDict []))])))
     = [Visit (PStr ''http://q/1''),
        LLMCall ''24f1001827@ds.study.iitm.ac.in'' ''s3cret''
          (SolvePrompt ''Q1'' (PStr ''http://q/1'') ''24f1001827@ds.study.iitm.ac.in'' ''s3cret'' None),
        Exec ''print(1)'' ''24f1001827@ds.study.iitm.ac.in'' ''s3cret'' (PStr ''http://q/1''),
        Visit (PStr ''http://q/2''),
        LLMCall ''24f1001827@ds.study.iitm.ac.in'' ''s3cret''
          (SolvePrompt ''Q2'' (PStr ''http://q/2'') ''24f1001827@ds.study.iitm.ac.in'' ''s3cret'' None),
        Exec ''print(2)'' ''24f1001827@ds.study.iitm.ac.in'' ''s3cret'' (PStr ''http://q/2''),
        Post (PStr ''http://q/2'')
          \<lparr>fp_email = ''24f1001827@ds.study.iitm.ac.in'', fp_secret = ''s3cret'',
           fp_url = PStr ''http://q/2'', fp_answer = ''FAILED''\<rparr>]\<close>
proof -
  let ?r1 = "\<lparr>req_email = ''someone@example.org'', req_secret = ''s3cret'', req_url = ''http://q/1''\<rparr>"
  let ?r2 = "\<lparr>req_email = ''24f1001827@ds.study.iitm.ac.in'', req_secret = ''s3cret'',
              req_url = ''http://q/1''\<rparr>"
  have h: "req_secret ?r1 = STUDENT_SECRET sample_settings \<and> req_secret ?r2 = STUDENT_SECRET sample_settings
      \<and> req_url ?r1 = req_url ?r2"
    by (simp add: sample_settings_def)
  have e: \<open>events (snd (handle_quiz 3 flat_runtime sample_settings ?r1
          (scripted_world [] [Some (''Q1'', ''<p>Q1</p>''), Some (''Q2'', ''<p>Q2</p>'')]
             [Some ''print(1)'', Some ''print(2)'']
             [(Returned, ''Response: {"correct": true, "url": "http://q/2"}''), (Returned, [])]
             [Some (Inr (PDict []))])))
     = [Visit (PStr ''http://q/1''),
        LLMCall ''24f1001827@ds.study.iitm.ac.in'' ''s3cret''
          (SolvePrompt ''Q1'' (PStr ''http://q/1'') ''24f1001827@ds.study.iitm.ac.in'' ''s3cret'' None),
        Exec ''print(1)'' ''24f1001827@ds.study.iitm.ac.in'' ''s3cret'' (PStr ''http://q/1''),
        Visit (PStr ''http://q/2''),
        LLMCall ''24f1001827@ds.study.iitm.ac.in'' ''s3cret''
          (SolvePrompt ''Q2'' (PStr ''http://q/2'') ''24f1001827@ds.study.iitm.ac.in'' ''s3cret'' None),
        Exec ''print(2)'' ''24f1001827@ds.study.iitm.ac.in'' ''s3cret'' (PStr ''http://q/2''),
        Post (PStr ''http://q/2'')
          \<lparr>fp_email = ''24f1001827@ds.study.iitm.ac.in'', fp_secret = ''s3cret'',
           fp_url = PStr ''http://q/2'', fp_answer = ''FAILED''\<rparr>]\<close>
    by code_simp
  show ?thesis
    using request_credentials_unused [where ?r1.0 = ?r1 and ?r2.0 = ?r2 and st = sample_settings
        and fuel = 3 and rt = flat_runtime] h e
    by blast
qed

end
